theory Spec2Isabelle
  imports Complex_Main "HOL-Library.AList"
begin

section \<open>Numbers, vectors and dictionaries\<close>

text \<open>
  The rigger computes with numpy arrays of Python floats. The embedding takes the
  coordinates as real numbers, and the operations \<open>vadd\<close>, \<open>vsub\<close>, \<open>vmul\<close>, \<open>vdiv\<close>
  below are the arithmetic the code writes down, carried out exactly. Where a
  statement depends on what rounding does to a result, the operation is taken in
  binary64 instead, rounded to nearest: that is \<open>calculate_joint_position_f64\<close>, next
  to the exact \<open>calculate_joint_position\<close>.
  A row of a \<open>V x 3\<close> array, a joint position and a relative position are all a
  \<open>vec3\<close>; the vertex array is the list of its rows.
\<close>

datatype vec3 = Vec3 (vx: real) (vy: real) (vz: real)

text \<open>numpy's elementwise \<open>+\<close>, \<open>-\<close>, \<open>*\<close> on two 3-vectors, and \<open>/\<close> by a scalar.\<close>

fun vadd :: "vec3 \<Rightarrow> vec3 \<Rightarrow> vec3" where
  "vadd (Vec3 a b c) (Vec3 x y z) = Vec3 (a + x) (b + y) (c + z)"

fun vsub :: "vec3 \<Rightarrow> vec3 \<Rightarrow> vec3" where
  "vsub (Vec3 a b c) (Vec3 x y z) = Vec3 (a - x) (b - y) (c - z)"

fun vmul :: "vec3 \<Rightarrow> vec3 \<Rightarrow> vec3" where
  "vmul (Vec3 a b c) (Vec3 x y z) = Vec3 (a * x) (b * y) (c * z)"

fun vdiv :: "vec3 \<Rightarrow> real \<Rightarrow> vec3" where
  "vdiv (Vec3 a b c) k = Vec3 (a / k) (b / k) (c / k)"

fun vmin :: "vec3 \<Rightarrow> vec3 \<Rightarrow> vec3" where
  "vmin (Vec3 a b c) (Vec3 x y z) = Vec3 (min a x) (min b y) (min c z)"

fun vmax :: "vec3 \<Rightarrow> vec3 \<Rightarrow> vec3" where
  "vmax (Vec3 a b c) (Vec3 x y z) = Vec3 (max a x) (max b y) (max c z)"

text \<open>
  What the code can raise. \<open>IndexError\<close>: a row or vertex index out of range.
  \<open>AttributeError\<close>: a method called on \<open>None\<close> (a node without parent, a node
  without attribute). \<open>InvalidNode\<close> has no counterpart in Python, where every node
  reference is a live object of a tree-shaped scene: it is what the scene model
  answers for a handle that names no node, or a parent link that does not point to
  an earlier node.
\<close>

datatype error = IndexError | AttributeError | InvalidNode

text \<open>What the code prints: the two messages, each with the joint name it names.\<close>

datatype diagnostic =
    UnrecognizedJointName string
  | PositionInformationMissing string

text \<open>
  A Python dict whose items are iterated is an association list with distinct keys,
  in iteration order: \<open>d[k] = v\<close> is \<open>AList.update k v d\<close>, \<open>d.get(k)\<close> and
  \<open>d[k]\<close> are \<open>map_of d k\<close> (\<open>None\<close>: the default of \<open>get\<close>, the \<open>KeyError\<close> of
  \<open>d[k]\<close>), and \<open>d.update(e)\<close> stores the items of \<open>e\<close> one after the other.
\<close>

type_synonym ('k, 'v) dict = "('k \<times> 'v) list"

definition dict_update :: "('k, 'v) dict \<Rightarrow> ('k, 'v) dict \<Rightarrow> ('k, 'v) dict" where
  "dict_update d e = fold (\<lambda>(k, v). AList.update k v) e d"

section \<open>Landmark resolver: \<open>joint_positions.py\<close>\<close>

text \<open>
  \<open>vertices[reference_vertices, :]\<close>: numpy takes row \<open>i\<close> for \<open>0 \<le> i < V\<close>, row
  \<open>V + i\<close> for \<open>-V \<le> i < 0\<close>, and raises \<open>IndexError\<close> otherwise.
\<close>

definition np_row :: "vec3 list \<Rightarrow> int \<Rightarrow> error + vec3" where
  "np_row vertices i =
     (let V = int (length vertices); j = (if i < 0 then V + i else i)
      in if 0 \<le> j \<and> j < V then Inr (vertices ! nat j) else Inl IndexError)"

fun np_rows :: "vec3 list \<Rightarrow> int list \<Rightarrow> error + vec3 list" where
  "np_rows vertices [] = Inr []"
| "np_rows vertices (i # is) =
     (case np_row vertices i of
        Inl e \<Rightarrow> Inl e
      | Inr p \<Rightarrow> (case np_rows vertices is of Inl e \<Rightarrow> Inl e | Inr ps \<Rightarrow> Inr (p # ps)))"

text \<open>\<open>np.min(a, axis=0)\<close> and \<open>np.max(a, axis=0)\<close> on an array with at least one row.\<close>

fun np_min_axis0 :: "vec3 list \<Rightarrow> vec3" where
  "np_min_axis0 [] = Vec3 0 0 0"
| "np_min_axis0 (p # ps) = fold vmin ps p"

fun np_max_axis0 :: "vec3 list \<Rightarrow> vec3" where
  "np_max_axis0 [] = Vec3 0 0 0"
| "np_max_axis0 (p # ps) = fold vmax ps p"

definition default_relative_position :: vec3 where
  "default_relative_position = Vec3 (1/2) (1/2) (1/2)"

text \<open>
  \<open>calculate_joint_position\<close>. With no reference vertex, \<open>joint_vertices[0, :]\<close>
  raises \<open>IndexError\<close>; the reductions are only reached with more than two rows.
\<close>

definition calculate_joint_position :: "vec3 list \<Rightarrow> int list \<Rightarrow> vec3 \<Rightarrow> error + vec3" where
  "calculate_joint_position vertices reference_vertices relative_position =
     (case np_rows vertices reference_vertices of
        Inl e \<Rightarrow> Inl e
      | Inr joint_vertices \<Rightarrow>
          if length joint_vertices > 2 then
            (let v1 = np_min_axis0 joint_vertices; v2 = np_max_axis0 joint_vertices
             in Inr (vadd v1 (vmul (vsub v2 v1) relative_position)))
          else if joint_vertices = [] then Inl IndexError
          else
            (let v1 = hd joint_vertices; v2 = last joint_vertices
             in Inr (vadd v1 (vmul (vsub v2 v1) relative_position))))"

text \<open>
  One entry of the joint position specification: the keyword arguments of
  \<open>calculate_joint_position\<close>; a missing \<open>relative_position\<close> takes the default.
\<close>

record joint_spec =
  reference_vertices :: "int list"
  relative_position :: "vec3 option"

definition spec_relative_position :: "joint_spec \<Rightarrow> vec3" where
  "spec_relative_position js =
     (case relative_position js of None \<Rightarrow> default_relative_position | Some rp \<Rightarrow> rp)"

text \<open>The \<open>for\<close> loop of \<open>calculate_joint_positions\<close>, from the map built so far.\<close>

fun resolve_joints ::
  "vec3 list \<Rightarrow> (string, joint_spec) dict \<Rightarrow> (string, vec3) dict \<Rightarrow> error + (string, vec3) dict"
where
  "resolve_joints vertices [] joint_location_map = Inr joint_location_map"
| "resolve_joints vertices ((joint_name, js) # rest) joint_location_map =
     (case calculate_joint_position vertices (reference_vertices js) (spec_relative_position js) of
        Inl e \<Rightarrow> Inl e
      | Inr p \<Rightarrow> resolve_joints vertices rest (AList.update joint_name p joint_location_map))"

text \<open>
  The \<open>try\<close> block: the statements in their order, each lookup that fails ending the
  block with the message for the key it asked for. The map keeps what was stored
  before the failure.
\<close>

definition shoulders ::
  "(string, vec3) dict \<Rightarrow> (string, vec3) dict \<times> diagnostic list"
where
  "shoulders joint_location_map =
     (case map_of joint_location_map ''Neck'' of
        None \<Rightarrow> (joint_location_map, [UnrecognizedJointName ''Neck''])
      | Some neck_pos \<Rightarrow>
         (case map_of joint_location_map ''LeftArm'' of
            None \<Rightarrow> (joint_location_map, [UnrecognizedJointName ''LeftArm''])
          | Some left_arm_pos \<Rightarrow>
             (let m1 = AList.update ''LeftShoulder''
                         (vadd neck_pos (vdiv (vsub left_arm_pos neck_pos) 3)) joint_location_map
              in case map_of m1 ''RightArm'' of
                   None \<Rightarrow> (m1, [UnrecognizedJointName ''RightArm''])
                 | Some right_arm_pos \<Rightarrow>
                     (AList.update ''RightShoulder''
                        (vadd neck_pos (vdiv (vsub right_arm_pos neck_pos) 3)) m1, []))))"

text \<open>
  \<open>calculate_joint_positions\<close>: the map and what was printed, or the exception of
  the loop.
\<close>

definition calculate_joint_positions ::
  "vec3 list \<Rightarrow> (string, joint_spec) dict \<Rightarrow> error + ((string, vec3) dict \<times> diagnostic list)"
where
  "calculate_joint_positions vertices joint_position_spec =
     (case resolve_joints vertices joint_position_spec [] of
        Inl e \<Rightarrow> Inl e
      | Inr joint_location_map \<Rightarrow> Inr (shoulders joint_location_map))"

subsection \<open>The blend in binary64\<close>

text \<open>
  numpy's \<open>float64\<close> is IEEE 754 binary64: 53 significant bits, exponents from
  \<open>-1022\<close> to \<open>1023\<close>, gradual underflow, and every operation returns the exact
  result rounded to the nearest representable number, a tie going to the even
  significand. \<open>pow2 e\<close> is \<open>2\<close> to the power \<open>e\<close>, and \<open>round_half_even\<close> rounds a real
  to the nearest integer, a tie to the even one.
\<close>

definition pow2 :: "int \<Rightarrow> real" where
  "pow2 e = (if 0 \<le> e then 2 ^ nat e else 1 / 2 ^ nat (- e))"

definition round_half_even :: "real \<Rightarrow> int" where
  "round_half_even x =
     (let f = \<lfloor>x\<rfloor>; r = x - of_int f
      in if r < 1/2 then f else if 1/2 < r then f + 1 else if even f then f else f + 1)"

text \<open>
  The exponent of a positive \<open>a\<close>, by bisection between \<open>lo\<close> and \<open>hi\<close>: from
  \<open>-1022\<close> and \<open>1024\<close> the result is the \<open>e\<close> with \<open>2^e \<le> a < 2^(e+1)\<close>, but
  \<open>-1022\<close> for every \<open>a\<close> below \<open>2^-1022\<close> (the subnormal numbers share the smallest
  exponent) and \<open>1023\<close> for every \<open>a\<close> from \<open>2^1024\<close> on.
\<close>

function search_exponent :: "int \<Rightarrow> int \<Rightarrow> real \<Rightarrow> int" where
  "search_exponent lo hi a =
     (if hi \<le> lo + 1 then lo
      else if pow2 ((lo + hi) div 2) \<le> a then search_exponent ((lo + hi) div 2) hi a
      else search_exponent lo ((lo + hi) div 2) a)"
  by pat_completeness auto
termination
  by (relation "measure (\<lambda>(lo, hi, a). nat (hi - lo))") auto

declare search_exponent.simps [simp del]

text \<open>
  Rounding to nearest: the numbers with the exponent \<open>e\<close> of \<open>x\<close> are the multiples of
  \<open>2^(e-52)\<close>, and \<open>x\<close> goes to the nearest of them. \<open>f64 x\<close> is what an operation
  with the exact result \<open>x\<close> returns: the rounded value, or \<open>None\<close> when that is beyond
  the largest finite number and the operation returns an infinity. A number is a
  double when rounding leaves it as it is.
\<close>

definition round_to_double :: "real \<Rightarrow> real" where
  "round_to_double x =
     (if x = 0 then 0
      else (let q = pow2 (search_exponent (- 1022) 1024 \<bar>x\<bar> - 52)
            in sgn x * (of_int (round_half_even (\<bar>x\<bar> / q)) * q)))"

definition f64 :: "real \<Rightarrow> real option" where
  "f64 x = (let r = round_to_double x in if \<bar>r\<bar> < 2 ^ 1024 then Some r else None)"

definition is_double :: "real \<Rightarrow> bool" where
  "is_double x \<longleftrightarrow> f64 x = Some x"

definition is_double_vec :: "vec3 \<Rightarrow> bool" where
  "is_double_vec v \<longleftrightarrow> is_double (vx v) \<and> is_double (vy v) \<and> is_double (vz v)"

text \<open>
  The two parts of \<open>round_to_double\<close> by name, for the proofs: the exponent of a
  positive number, and its rounding.
\<close>

definition expo :: "real \<Rightarrow> int" where
  "expo a = search_exponent (- 1022) 1024 a"

definition rnd_abs :: "real \<Rightarrow> real" where
  "rnd_abs a = of_int (round_half_even (a / pow2 (expo a - 52))) * pow2 (expo a - 52)"

text \<open>
  numpy's elementwise \<open>+\<close>, \<open>-\<close>, \<open>*\<close> on two arrays of three doubles. The result is
  \<open>None\<close> when one of its coordinates is not a finite number; an infinity or a nan
  in an operand makes every later result an infinity or a nan, so that \<open>None\<close> is
  passed on.
\<close>

fun vec_of_options :: "real option \<Rightarrow> real option \<Rightarrow> real option \<Rightarrow> vec3 option" where
  "vec_of_options (Some a) (Some b) (Some c) = Some (Vec3 a b c)"
| "vec_of_options _ _ _ = None"

fun vadd_f64 :: "vec3 \<Rightarrow> vec3 \<Rightarrow> vec3 option" where
  "vadd_f64 (Vec3 a b c) (Vec3 x y z) = vec_of_options (f64 (a + x)) (f64 (b + y)) (f64 (c + z))"

fun vsub_f64 :: "vec3 \<Rightarrow> vec3 \<Rightarrow> vec3 option" where
  "vsub_f64 (Vec3 a b c) (Vec3 x y z) = vec_of_options (f64 (a - x)) (f64 (b - y)) (f64 (c - z))"

fun vmul_f64 :: "vec3 \<Rightarrow> vec3 \<Rightarrow> vec3 option" where
  "vmul_f64 (Vec3 a b c) (Vec3 x y z) = vec_of_options (f64 (a * x)) (f64 (b * y)) (f64 (c * z))"

text \<open>
  \<open>v1 + (v2 - v1) * np.array(relative_position)\<close> as numpy evaluates it: the
  difference, then the product, then the sum, each rounded.
\<close>

definition blend_f64 :: "vec3 \<Rightarrow> vec3 \<Rightarrow> vec3 \<Rightarrow> vec3 option" where
  "blend_f64 v1 v2 rp =
     (case vsub_f64 v2 v1 of
        None \<Rightarrow> None
      | Some d \<Rightarrow> (case vmul_f64 d rp of None \<Rightarrow> None | Some p \<Rightarrow> vadd_f64 v1 p))"

text \<open>
  \<open>calculate_joint_position\<close> on arrays of doubles: the same gathering, the same
  choice of \<open>v1\<close> and \<open>v2\<close> (a minimum or a maximum of doubles is one of them, and is
  not rounded), and the blend in binary64.
\<close>

definition calculate_joint_position_f64 :: "vec3 list \<Rightarrow> int list \<Rightarrow> vec3 \<Rightarrow> error + vec3 option" where
  "calculate_joint_position_f64 vertices refs rp =
     (case np_rows vertices refs of
        Inl e \<Rightarrow> Inl e
      | Inr joint_vertices \<Rightarrow>
          if length joint_vertices > 2 then
            (let v1 = np_min_axis0 joint_vertices; v2 = np_max_axis0 joint_vertices
             in Inr (blend_f64 v1 v2 rp))
          else if joint_vertices = [] then Inl IndexError
          else
            (let v1 = hd joint_vertices; v2 = last joint_vertices
             in Inr (blend_f64 v1 v2 rp)))"

section \<open>The scene library\<close>

text \<open>
  The factory drives the FBX SDK, which is not part of the repository. What the
  claims need of it is modelled here from the specification's description of the
  scene capability (section 6: create a node under a parent, set a node's local
  translation, read a node's global transform, create a cluster with a link node and
  add \<open>(vertex index, weight)\<close> pairs, create a skin deformer and attach it to a mesh,
  create a bind pose of \<open>(node, global transform)\<close> records) and of transforms
  (sections 4.2 and 9: homogeneous matrices, a node's global transform composed from
  its ancestors' transforms and its own local scale, rotation and translation).
\<close>

text \<open>
  Modelled from the spec: the matrix arithmetic of the SDK, which the repository
  does not contain. The linear part of an affine \<open>4 x 4\<close> transform is a \<open>3 x 3\<close>
  matrix, given by its rows, with the matrix-vector and matrix-matrix products, the
  determinant and the inverse (the transposed cofactors over the determinant).
\<close>

datatype mat3 = Mat3 vec3 vec3 vec3

fun dot :: "vec3 \<Rightarrow> vec3 \<Rightarrow> real" where
  "dot (Vec3 a b c) (Vec3 x y z) = a * x + b * y + c * z"

fun cross :: "vec3 \<Rightarrow> vec3 \<Rightarrow> vec3" where
  "cross (Vec3 a b c) (Vec3 x y z) = Vec3 (b * z - c * y) (c * x - a * z) (a * y - b * x)"

fun vneg :: "vec3 \<Rightarrow> vec3" where
  "vneg (Vec3 a b c) = Vec3 (- a) (- b) (- c)"

definition mat_id :: mat3 where
  "mat_id = Mat3 (Vec3 1 0 0) (Vec3 0 1 0) (Vec3 0 0 1)"

fun mat_vec :: "mat3 \<Rightarrow> vec3 \<Rightarrow> vec3" where
  "mat_vec (Mat3 r1 r2 r3) v = Vec3 (dot r1 v) (dot r2 v) (dot r3 v)"

fun transpose3 :: "mat3 \<Rightarrow> mat3" where
  "transpose3 (Mat3 (Vec3 a b c) (Vec3 d e f) (Vec3 g h i)) =
     Mat3 (Vec3 a d g) (Vec3 b e h) (Vec3 c f i)"

definition mat_mul :: "mat3 \<Rightarrow> mat3 \<Rightarrow> mat3" where
  "mat_mul A B =
     (case transpose3 B of
        Mat3 c1 c2 c3 \<Rightarrow> transpose3 (Mat3 (mat_vec A c1) (mat_vec A c2) (mat_vec A c3)))"

fun det3 :: "mat3 \<Rightarrow> real" where
  "det3 (Mat3 r1 r2 r3) = dot r1 (cross r2 r3)"

fun mat_inv :: "mat3 \<Rightarrow> mat3" where
  "mat_inv (Mat3 r1 r2 r3) =
     (let d = dot r1 (cross r2 r3)
      in transpose3 (Mat3 (vdiv (cross r2 r3) d) (vdiv (cross r3 r1) d) (vdiv (cross r1 r2) d)))"

text \<open>
  Modelled from the spec: the SDK's class \<open>FbxAMatrix\<close>, which the repository does
  not contain. It is an affine transform \<open>x \<mapsto> lin x + transl\<close> (the homogeneous
  matrix with last row \<open>0 0 0 1\<close>), with the methods the factory calls:
  \<open>SetIdentity\<close>, \<open>SetT\<close>, \<open>GetT\<close>, \<open>Inverse\<close> and the product \<open>*\<close>, where \<open>A * B\<close>
  applies \<open>B\<close> first.
\<close>

datatype FbxAMatrix = FbxAMatrix (lin: mat3) (transl: vec3)

definition SetIdentity :: FbxAMatrix where
  "SetIdentity = FbxAMatrix mat_id (Vec3 0 0 0)"

definition SetT :: "vec3 \<Rightarrow> FbxAMatrix \<Rightarrow> FbxAMatrix" where
  "SetT t M = FbxAMatrix (lin M) t"

definition GetT :: "FbxAMatrix \<Rightarrow> vec3" where
  "GetT M = transl M"

definition Inverse :: "FbxAMatrix \<Rightarrow> FbxAMatrix" where
  "Inverse M = FbxAMatrix (mat_inv (lin M)) (vneg (mat_vec (mat_inv (lin M)) (transl M)))"

definition amul :: "FbxAMatrix \<Rightarrow> FbxAMatrix \<Rightarrow> FbxAMatrix" where
  "amul A B = FbxAMatrix (mat_mul (lin A) (lin B)) (vadd (mat_vec (lin A) (transl B)) (transl A))"

text \<open>
  Modelled from the spec: the SDK's classes \<open>FbxCluster\<close>, \<open>FbxSkin\<close>, \<open>FbxPose\<close>,
  \<open>FbxMesh\<close> and \<open>FbxNode\<close>, which the repository does not contain. A cluster has
  its link node, its link mode, the \<open>(vertex index, weight)\<close> influences added to it
  and its bind-time link transform; a skin has its clusters; a pose has its records
  \<open>(node, matrix)\<close>. Of a mesh only the deformers are kept (its geometry is built by
  \<open>_set_mesh\<close>, which no claim is about). A node is named by a handle, its position
  in the scene's list of nodes in creation order. It has a name, a parent, a local
  translation, the \<open>3 x 3\<close> matrix of its local rotation and scaling, and an attribute
  (a skeleton or a mesh, kept by value: the factory attaches each to one node).
\<close>

datatype link_mode = eNormalize | eAdditive | eTotalOne

datatype skeleton_type = eRoot | eLimb | eLimbNode | eEffector

record FbxCluster =
  link :: "nat option"
  link_mode :: link_mode
  control_point_indices :: "(int \<times> real) list"
  transform_link_matrix :: FbxAMatrix

record FbxSkin =
  skin_clusters :: "FbxCluster list"

record FbxPose =
  is_bind_pose :: bool
  pose_items :: "(nat \<times> FbxAMatrix) list"

record FbxMesh =
  deformers :: "FbxSkin list"

datatype node_attribute = Skeleton skeleton_type | Mesh FbxMesh

record FbxNode =
  fbx_name :: string
  node_parent :: "nat option"
  LclTranslation :: vec3
  lcl_rotation_scaling :: mat3
  node_attribute :: "node_attribute option"

text \<open>
  What the factory acts on: the scene (its nodes and its poses) and standard output.
\<close>

record world =
  nodes :: "FbxNode list"
  poses :: "FbxPose list"
  stdout :: "diagnostic list"

text \<open>
  Modelled from the spec: the node methods of the SDK, which the repository does not
  contain. \<open>FbxNode.Create\<close> makes a node with no parent, no attribute and the
  identity as local transform, and returns its handle; \<open>SetNodeAttribute\<close>,
  \<open>AddChild\<close>, \<open>GetParent\<close> and \<open>GetNodeAttribute\<close> write and read the node's fields.
\<close>

definition FbxNode_Create :: "string \<Rightarrow> world \<Rightarrow> nat \<times> world" where
  "FbxNode_Create name w =
     (length (nodes w),
      w\<lparr>nodes := nodes w @
           [\<lparr>fbx_name = name, node_parent = None, LclTranslation = Vec3 0 0 0,
             lcl_rotation_scaling = mat_id, node_attribute = None\<rparr>]\<rparr>)"

definition SetNodeAttribute :: "nat \<Rightarrow> node_attribute \<Rightarrow> world \<Rightarrow> world" where
  "SetNodeAttribute node a w =
     w\<lparr>nodes := (nodes w)[node := (nodes w ! node)\<lparr>node_attribute := Some a\<rparr>]\<rparr>"

definition AddChild :: "nat \<Rightarrow> nat \<Rightarrow> world \<Rightarrow> world" where
  "AddChild parent node w =
     w\<lparr>nodes := (nodes w)[node := (nodes w ! node)\<lparr>node_parent := Some parent\<rparr>]\<rparr>"

definition GetParent :: "world \<Rightarrow> nat \<Rightarrow> error + nat option" where
  "GetParent w node =
     (if node < length (nodes w) then Inr (node_parent (nodes w ! node)) else Inl InvalidNode)"

definition GetNodeAttribute :: "world \<Rightarrow> nat \<Rightarrow> error + node_attribute option" where
  "GetNodeAttribute w node =
     (if node < length (nodes w) then Inr (node_attribute (nodes w ! node)) else Inl InvalidNode)"

text \<open>
  Modelled from the spec: the SDK's \<open>EvaluateGlobalTransform\<close>, which the
  repository does not contain. A node's local transform is its rotation and scaling
  followed by its translation, and its global transform is the parent's global
  transform times the local one (the local one for a node without parent). The
  pivots and offsets a node of the SDK can carry besides, which the factory never
  sets, are not modelled. Parents are created before their children, so the parent's
  handle is the smaller one.
\<close>

definition local_transform :: "FbxNode \<Rightarrow> FbxAMatrix" where
  "local_transform n = FbxAMatrix (lcl_rotation_scaling n) (LclTranslation n)"

function EvaluateGlobalTransform :: "FbxNode list \<Rightarrow> nat \<Rightarrow> error + FbxAMatrix" where
  "EvaluateGlobalTransform ns node =
     (if node < length ns then
        (case node_parent (ns ! node) of
           None \<Rightarrow> Inr (local_transform (ns ! node))
         | Some parent \<Rightarrow>
             if parent < node then
               (case EvaluateGlobalTransform ns parent of
                  Inl e \<Rightarrow> Inl e
                | Inr parent_global \<Rightarrow> Inr (amul parent_global (local_transform (ns ! node))))
             else Inl InvalidNode)
      else Inl InvalidNode)"
  by pat_completeness auto
termination
  by (relation "measure snd") auto

declare EvaluateGlobalTransform.simps [simp del]

section \<open>Skeleton builder and skin binder: \<open>factory.py\<close>\<close>

text \<open>
  \<open>_set_node_translation\<close>. The product is taken left to right, as Python does.
  \<open>GetParent()\<close> of a node without parent is \<open>None\<close>, and the call on it raises.
\<close>

definition set_node_translation :: "vec3 \<Rightarrow> nat \<Rightarrow> world \<Rightarrow> error + world" where
  "set_node_translation location fbx_node w =
     (let global_pos_mat = SetT location SetIdentity
      in case EvaluateGlobalTransform (nodes w) fbx_node of
           Inl e \<Rightarrow> Inl e
         | Inr current_global_pos_mat \<Rightarrow>
            (case GetParent w fbx_node of
               Inl e \<Rightarrow> Inl e
             | Inr None \<Rightarrow> Inl AttributeError
             | Inr (Some parent) \<Rightarrow>
                (case EvaluateGlobalTransform (nodes w) parent of
                   Inl e \<Rightarrow> Inl e
                 | Inr parent_global_pos_mat \<Rightarrow>
                    (let current_local_translation =
                           SetT (LclTranslation (nodes w ! fbx_node)) SetIdentity;
                         new_local_translation =
                           amul (amul (amul (amul (Inverse parent_global_pos_mat) global_pos_mat)
                                   (Inverse current_global_pos_mat))
                                   parent_global_pos_mat)
                             current_local_translation
                     in Inr (w\<lparr>nodes := (nodes w)[fbx_node :=
                               (nodes w ! fbx_node)\<lparr>LclTranslation := GetT new_local_translation\<rparr>]\<rparr>)))))"

text \<open>The joint hierarchy of \<open>rig_assets.py\<close>: a name and the list of children.\<close>

datatype JointTree = JointTree (name: string) (children: "JointTree list")

text \<open>
  \<open>_extend_skeleton\<close>, with the loop over the children as a second function that
  carries the node map built so far.
\<close>

fun extend_skeleton ::
      "nat \<Rightarrow> JointTree \<Rightarrow> (string, vec3) dict \<Rightarrow> world \<Rightarrow> error + (world \<times> (string, nat) dict)"
  and extend_children ::
      "nat \<Rightarrow> JointTree list \<Rightarrow> (string, vec3) dict \<Rightarrow> world \<Rightarrow> (string, nat) dict
         \<Rightarrow> error + (world \<times> (string, nat) dict)"
where
  "extend_skeleton parent_fbx_node (JointTree node_name cs) target_fbx_node_positions w =
     (case FbxNode_Create node_name w of
        (node, w1) \<Rightarrow>
          (let w2 = SetNodeAttribute node (Skeleton eLimbNode) w1;
               w3 = AddChild parent_fbx_node node w2;
               fbx_node_map = AList.update node_name node []
           in case (case map_of target_fbx_node_positions node_name of
                      Some node_position \<Rightarrow> set_node_translation node_position node w3
                    | None \<Rightarrow>
                        Inr (w3\<lparr>stdout := stdout w3 @ [PositionInformationMissing node_name]\<rparr>)) of
                Inl e \<Rightarrow> Inl e
              | Inr w4 \<Rightarrow> extend_children node cs target_fbx_node_positions w4 fbx_node_map))"
| "extend_children node [] target_fbx_node_positions w fbx_node_map = Inr (w, fbx_node_map)"
| "extend_children node (child # rest) target_fbx_node_positions w fbx_node_map =
     (case extend_skeleton node child target_fbx_node_positions w of
        Inl e \<Rightarrow> Inl e
      | Inr (w', child_map) \<Rightarrow>
          extend_children node rest target_fbx_node_positions w' (dict_update fbx_node_map child_map))"

text \<open>A \<open>ControlPointCluster\<close> of \<open>rig_assets.py\<close>.\<close>

record ControlPointCluster =
  indices :: "int list"
  weights :: "real list"

text \<open>
  Modelled from the spec: the SDK's constructors and adders for clusters, skins and
  poses, which the repository does not contain. \<open>FbxCluster.Create\<close>,
  \<open>FbxSkin.Create\<close> and \<open>FbxPose.Create\<close> make empty objects;
  \<open>AddControlPointIndex\<close>, \<open>AddCluster\<close> and the pose's \<open>Add\<close> append to them.
\<close>

definition FbxCluster_Create :: FbxCluster where
  "FbxCluster_Create =
     \<lparr>link = None, link_mode = eNormalize, control_point_indices = [],
      transform_link_matrix = SetIdentity\<rparr>"

definition AddControlPointIndex :: "int \<Rightarrow> real \<Rightarrow> FbxCluster \<Rightarrow> FbxCluster" where
  "AddControlPointIndex vid weight c =
     c\<lparr>control_point_indices := control_point_indices c @ [(vid, weight)]\<rparr>"

definition FbxSkin_Create :: FbxSkin where
  "FbxSkin_Create = \<lparr>skin_clusters = []\<rparr>"

definition AddCluster :: "FbxCluster \<Rightarrow> FbxSkin \<Rightarrow> FbxSkin" where
  "AddCluster c skin = skin\<lparr>skin_clusters := skin_clusters skin @ [c]\<rparr>"

definition FbxPose_Create :: FbxPose where
  "FbxPose_Create = \<lparr>is_bind_pose = False, pose_items = []\<rparr>"

definition pose_Add :: "nat \<Rightarrow> FbxAMatrix \<Rightarrow> FbxPose \<Rightarrow> FbxPose" where
  "pose_Add node M pose = pose\<lparr>pose_items := pose_items pose @ [(node, M)]\<rparr>"

text \<open>
  The loop of \<open>_add_skin_and_bind_pose\<close> over the items of the node map: the skin
  and the pose are the two objects it fills; the scene is only read.
\<close>

fun bind_joints ::
  "world \<Rightarrow> (string, ControlPointCluster) dict \<Rightarrow> (string, nat) dict \<Rightarrow> FbxSkin \<Rightarrow> FbxPose
     \<Rightarrow> error + (FbxSkin \<times> FbxPose)"
where
  "bind_joints w clusters [] skin bind_pose = Inr (skin, bind_pose)"
| "bind_joints w clusters ((node_name, node) # rest) skin bind_pose =
     (case map_of clusters node_name of
        None \<Rightarrow> bind_joints w clusters rest skin bind_pose
      | Some cluster_info \<Rightarrow>
          (let cluster = FbxCluster_Create\<lparr>link := Some node, link_mode := eNormalize\<rparr>;
               cluster = fold (\<lambda>(vid, weight). AddControlPointIndex vid weight)
                           (zip (indices cluster_info) (weights cluster_info)) cluster
           in case EvaluateGlobalTransform (nodes w) node of
                Inl e \<Rightarrow> Inl e
              | Inr transform \<Rightarrow>
                  bind_joints w clusters rest
                    (AddCluster (cluster\<lparr>transform_link_matrix := transform\<rparr>) skin)
                    (pose_Add node transform bind_pose)))"

text \<open>
  \<open>_add_skin_and_bind_pose\<close>. A mesh node without attribute, or with one that is
  no mesh, makes \<open>mesh.AddDeformer\<close> raise after the loop.
\<close>

definition add_skin_and_bind_pose ::
  "(string, nat) dict \<Rightarrow> nat \<Rightarrow> (string, ControlPointCluster) dict \<Rightarrow> world \<Rightarrow> error + world"
where
  "add_skin_and_bind_pose fbx_node_map fbx_mesh_node clusters w =
     (case GetNodeAttribute w fbx_mesh_node of
        Inl e \<Rightarrow> Inl e
      | Inr mesh \<Rightarrow>
         (case EvaluateGlobalTransform (nodes w) fbx_mesh_node of
            Inl e \<Rightarrow> Inl e
          | Inr mesh_global \<Rightarrow>
             (let skin = FbxSkin_Create;
                  bind_pose = pose_Add fbx_mesh_node mesh_global (FbxPose_Create\<lparr>is_bind_pose := True\<rparr>)
              in case bind_joints w clusters fbx_node_map skin bind_pose of
                   Inl e \<Rightarrow> Inl e
                 | Inr (skin', bind_pose') \<Rightarrow>
                    (case mesh of
                       Some (Mesh m) \<Rightarrow>
                         Inr (w\<lparr>nodes := (nodes w)[fbx_mesh_node := (nodes w ! fbx_mesh_node)
                                   \<lparr>node_attribute := Some (Mesh (m\<lparr>deformers := deformers m @ [skin']\<rparr>))\<rparr>],
                                poses := poses w @ [bind_pose']\<rparr>)
                     | _ \<Rightarrow> Inl AttributeError))))"

section \<open>The specification's vocabulary\<close>

text \<open>
  The componentwise minimum and maximum of a list of points (the corners of their
  axis-aligned bounding box), membership in a box, and the unit cube \<open>[0,1]^3\<close> in
  which the data model puts every relative position.
\<close>

definition bbox_min :: "vec3 list \<Rightarrow> vec3" where
  "bbox_min pts = Vec3 (Min (vx ` set pts)) (Min (vy ` set pts)) (Min (vz ` set pts))"

definition bbox_max :: "vec3 list \<Rightarrow> vec3" where
  "bbox_max pts = Vec3 (Max (vx ` set pts)) (Max (vy ` set pts)) (Max (vz ` set pts))"

definition in_box :: "vec3 \<Rightarrow> vec3 \<Rightarrow> vec3 \<Rightarrow> bool" where
  "in_box lo hi p \<longleftrightarrow>
     vx lo \<le> vx p \<and> vx p \<le> vx hi \<and> vy lo \<le> vy p \<and> vy p \<le> vy hi \<and> vz lo \<le> vz p \<and> vz p \<le> vz hi"

definition in_unit_cube :: "vec3 \<Rightarrow> bool" where
  "in_unit_cube t \<longleftrightarrow> in_box (Vec3 0 0 0) (Vec3 1 1 1) t"

definition vec_le :: "vec3 \<Rightarrow> vec3 \<Rightarrow> bool" where
  "vec_le a b \<longleftrightarrow> vx a \<le> vx b \<and> vy a \<le> vy b \<and> vz a \<le> vz b"


text \<open>
  A scene whose parents were created before their children; the items of the node
  map whose joint name has a cluster entry; the deformers of the mesh at a node; and
  what \<open>_add_skin_and_bind_pose\<close> makes of one such item: a cluster linked to the
  joint's node, in mode \<open>eNormalize\<close>, with the zipped influences of the cluster
  entry and the node's global transform.
\<close>

definition parents_first :: "FbxNode list \<Rightarrow> bool" where
  "parents_first ns \<longleftrightarrow>
     list_all (\<lambda>h. case node_parent (ns ! h) of None \<Rightarrow> True | Some p \<Rightarrow> p < h) [0..<length ns]"

definition with_cluster :: "(string, ControlPointCluster) dict \<Rightarrow> (string, nat) dict \<Rightarrow> (string, nat) dict" where
  "with_cluster clusters fbx_node_map = filter (\<lambda>(n, h). map_of clusters n \<noteq> None) fbx_node_map"

definition mesh_deformers :: "world \<Rightarrow> nat \<Rightarrow> FbxSkin list" where
  "mesh_deformers w h = (case node_attribute (nodes w ! h) of Some (Mesh m) \<Rightarrow> deformers m | _ \<Rightarrow> [])"

definition bound_to :: "FbxNode list \<Rightarrow> (string, ControlPointCluster) dict \<Rightarrow> string \<times> nat \<Rightarrow> FbxCluster \<Rightarrow> bool" where
  "bound_to ns clusters item c \<longleftrightarrow>
     link c = Some (snd item) \<and> link_mode c = eNormalize
     \<and> (case map_of clusters (fst item) of
           None \<Rightarrow> False
         | Some ci \<Rightarrow> control_point_indices c = zip (indices ci) (weights ci))
     \<and> EvaluateGlobalTransform ns (snd item) = Inr (transform_link_matrix c)"


text \<open>
  The names of a joint tree in the order the builder visits them (parent first, then
  the children's subtrees in their stored order).
\<close>

fun tree_names :: "JointTree \<Rightarrow> string list" where
  "tree_names (JointTree n cs) = n # concat (map tree_names cs)"


text \<open>
  The scene before the builder's edit of a node: the node's local translation at
  the value it was created with. And the specification's rule for a node placed at
  \<open>location\<close>: its local translation is the translation of
  \<open>inverse(parent_global) * desired_global * inverse(current_global) * parent_global * local_current\<close>,
  the desired global transform being the identity with translation \<open>location\<close>,
  the current global transform and the current local translation those before the
  edit, and the parent's global transform the evaluated one.
\<close>

definition unedited :: "FbxNode list \<Rightarrow> nat \<Rightarrow> FbxNode list" where
  "unedited ns h = ns[h := (ns ! h)\<lparr>LclTranslation := Vec3 0 0 0\<rparr>]"

definition translation_solved :: "FbxNode list \<Rightarrow> nat \<Rightarrow> vec3 \<Rightarrow> bool" where
  "translation_solved ns h location \<longleftrightarrow>
     (case node_parent (ns ! h) of
        None \<Rightarrow> False
      | Some p \<Rightarrow>
         (case (EvaluateGlobalTransform ns p, EvaluateGlobalTransform (unedited ns h) h) of
            (Inr parent_global, Inr current_global) \<Rightarrow>
               LclTranslation (ns ! h) =
                 GetT (amul (amul (amul (amul (Inverse parent_global) (SetT location SetIdentity))
                               (Inverse current_global))
                          parent_global)
                        (SetT (LclTranslation (unedited ns h ! h)) SetIdentity))
          | _ \<Rightarrow> False))"


text \<open>
  What the builder leaves of one bone, and of a list of joint names: the nodes
  appended to the scene, one per name, each a limb node with the identity as rotation
  and scaling, placed by the rule above when its name has a target position and
  left at the origin of its parent otherwise, with one message per name that has no
  position.
\<close>

definition bone_ok :: "(string, vec3) dict \<Rightarrow> FbxNode list \<Rightarrow> nat \<Rightarrow> bool" where
  "bone_ok target ns h \<longleftrightarrow>
     lcl_rotation_scaling (ns ! h) = mat_id
   \<and> node_attribute (ns ! h) = Some (Skeleton eLimbNode)
   \<and> (case map_of target (fbx_name (ns ! h)) of
         None \<Rightarrow> LclTranslation (ns ! h) = Vec3 0 0 0
       | Some location \<Rightarrow> translation_solved ns h location)"

definition built :: "(string, vec3) dict \<Rightarrow> world \<Rightarrow> string list \<Rightarrow> world \<Rightarrow> bool" where
  "built target w names w' \<longleftrightarrow>
     (\<exists>new. nodes w' = nodes w @ new
          \<and> map fbx_name new = names
          \<and> parents_first (nodes w')
          \<and> poses w' = poses w
          \<and> stdout w' = stdout w
               @ map PositionInformationMissing (filter (\<lambda>n. map_of target n = None) names)
          \<and> (\<forall>h. length (nodes w) \<le> h \<and> h < length (nodes w') \<longrightarrow> bone_ok target (nodes w') h))"


text \<open>
  A scene in which every node's rotation and scaling matrix is invertible, as every
  rotation and every scaling by nonzero factors is.
\<close>

definition invertible_locals :: "FbxNode list \<Rightarrow> bool" where
  "invertible_locals ns \<longleftrightarrow> list_all (\<lambda>n. det3 (lcl_rotation_scaling n) \<noteq> 0) ns"


section \<open>Example inputs\<close>

text \<open>
  A scene as \<open>construct_rig\<close> leaves it after the skeleton is built: the scene's
  root node, the mesh node, and two bones; and a cluster dictionary with an entry
  for one of the bones and one for a joint that is not in the skeleton.
\<close>

definition example_world :: world where
  "example_world = \<lparr>nodes =
          [\<lparr>fbx_name = ''RootNode'', node_parent = None, LclTranslation = Vec3 0 0 0,
            lcl_rotation_scaling = mat_id, node_attribute = None\<rparr>,
           \<lparr>fbx_name = ''BodyLabs_body'', node_parent = Some 0, LclTranslation = Vec3 0 0 0,
            lcl_rotation_scaling = mat_id, node_attribute = Some (Mesh \<lparr>deformers = []\<rparr>)\<rparr>,
           \<lparr>fbx_name = ''Root'', node_parent = Some 0, LclTranslation = Vec3 1 2 3,
            lcl_rotation_scaling = mat_id, node_attribute = Some (Skeleton eLimbNode)\<rparr>,
           \<lparr>fbx_name = ''Child'', node_parent = Some 2, LclTranslation = Vec3 0 1 0,
            lcl_rotation_scaling = mat_id, node_attribute = Some (Skeleton eLimbNode)\<rparr>],
         poses = [], stdout = []\<rparr>"


definition example_clusters :: "(string, ControlPointCluster) dict" where
  "example_clusters =
     [(''Child'', \<lparr>indices = [0, 1, 2], weights = [1, 1/2]\<rparr>),
      (''Other'', \<lparr>indices = [0], weights = [1]\<rparr>)]"


text \<open>
  A joint tree of four joints and target positions for three of them; and a scene
  whose bones carry rotations and a scaling: \<open>Hips\<close> turned a quarter about the
  z axis, \<open>Spine\<close> scaled by two, \<open>Neck\<close> turned a quarter about the x axis.
\<close>

definition example_tree :: JointTree where
  "example_tree =
     JointTree ''Root'' [JointTree ''A'' [JointTree ''B'' []], JointTree ''C'' []]"

definition example_positions :: "(string, vec3) dict" where
  "example_positions = [(''Root'', Vec3 1 2 3), (''B'', Vec3 5 5 5), (''C'', Vec3 0 0 1)]"


definition rotated_world :: world where
  "rotated_world =
     \<lparr>nodes =
        [\<lparr>fbx_name = ''RootNode'', node_parent = None, LclTranslation = Vec3 0 0 0,
          lcl_rotation_scaling = mat_id, node_attribute = None\<rparr>,
         \<lparr>fbx_name = ''Hips'', node_parent = Some 0, LclTranslation = Vec3 1 0 0,
          lcl_rotation_scaling = Mat3 (Vec3 0 (-1) 0) (Vec3 1 0 0) (Vec3 0 0 1),
          node_attribute = Some (Skeleton eLimbNode)\<rparr>,
         \<lparr>fbx_name = ''Spine'', node_parent = Some 1, LclTranslation = Vec3 0 2 0,
          lcl_rotation_scaling = Mat3 (Vec3 2 0 0) (Vec3 0 2 0) (Vec3 0 0 2),
          node_attribute = Some (Skeleton eLimbNode)\<rparr>,
         \<lparr>fbx_name = ''Neck'', node_parent = Some 2, LclTranslation = Vec3 1 1 1,
          lcl_rotation_scaling = Mat3 (Vec3 1 0 0) (Vec3 0 0 (-1)) (Vec3 0 1 0),
          node_attribute = Some (Skeleton eLimbNode)\<rparr>],
      poses = [], stdout = []\<rparr>"


section \<open>Landmark resolver: proofs\<close>

lemma vmin_sel [simp]:
  "vx (vmin p q) = min (vx p) (vx q)" "vy (vmin p q) = min (vy p) (vy q)"
  "vz (vmin p q) = min (vz p) (vz q)"
  by (cases p; cases q; simp)+

lemma vmax_sel [simp]:
  "vx (vmax p q) = max (vx p) (vx q)" "vy (vmax p q) = max (vy p) (vy q)"
  "vz (vmax p q) = max (vz p) (vz q)"
  by (cases p; cases q; simp)+

lemma fold_vmin_sel:
  "vx (fold vmin ps p) = fold min (map vx ps) (vx p)"
  "vy (fold vmin ps p) = fold min (map vy ps) (vy p)"
  "vz (fold vmin ps p) = fold min (map vz ps) (vz p)"
  by (induction ps arbitrary: p; simp)+

lemma fold_vmax_sel:
  "vx (fold vmax ps p) = fold max (map vx ps) (vx p)"
  "vy (fold vmax ps p) = fold max (map vy ps) (vy p)"
  "vz (fold vmax ps p) = fold max (map vz ps) (vz p)"
  by (induction ps arbitrary: p; simp)+

lemma fold_min_Min: "fold min (map f ps) (f p) = Min (f ` set (p # ps))"
  using Min.set_eq_fold [of "f p" "map f ps"] by simp

lemma fold_max_Max: "fold max (map f ps) (f p) = Max (f ` set (p # ps))"
  using Max.set_eq_fold [of "f p" "map f ps"] by simp

lemma np_min_axis0_bbox: "pts \<noteq> [] \<Longrightarrow> np_min_axis0 pts = bbox_min pts"
  by (cases pts) (simp_all add: bbox_min_def vec3.expand fold_vmin_sel fold_min_Min del: set_simps image_insert)

lemma np_max_axis0_bbox: "pts \<noteq> [] \<Longrightarrow> np_max_axis0 pts = bbox_max pts"
  by (cases pts) (simp_all add: bbox_max_def vec3.expand fold_vmax_sel fold_max_Max del: set_simps image_insert)

lemma np_rows_length: "np_rows vertices is = Inr ps \<Longrightarrow> length ps = length is"
  by (induction "is" arbitrary: ps) (auto split: sum.splits)

lemma bbox_min_le_max: "pts \<noteq> [] \<Longrightarrow> in_box (bbox_min pts) (bbox_max pts) (bbox_min pts)"
  by (cases pts) (auto simp: in_box_def bbox_min_def bbox_max_def intro!: Min_le_iff[THEN iffD2] Max_ge_iff[THEN iffD2])

lemma blend_le:
  fixes lo hi t :: real
  assumes "lo \<le> hi" "0 \<le> t" "t \<le> 1"
  shows "lo \<le> lo + (hi - lo) * t" "lo + (hi - lo) * t \<le> hi"
proof -
  have "0 \<le> (hi - lo) * t" using assms by simp
  then show "lo \<le> lo + (hi - lo) * t" by simp
  have "(hi - lo) * t \<le> (hi - lo) * 1" using assms by (intro mult_left_mono) simp_all
  then show "lo + (hi - lo) * t \<le> hi" by simp
qed

lemma blend_in_box:
  assumes "in_box lo hi lo" "in_unit_cube t"
  shows "in_box lo hi (vadd lo (vmul (vsub hi lo) t))"
  using assms by (cases lo; cases hi; cases t) (simp add: in_box_def in_unit_cube_def blend_le)

lemma blend_1: "vadd lo (vmul (vsub hi lo) (Vec3 1 1 1)) = hi"
  by (cases lo; cases hi) simp

lemma np_row_in_range:
  assumes "- int (length vertices) \<le> i" "i < int (length vertices)"
  shows "np_row vertices i = Inr (vertices ! nat (i mod int (length vertices)))"
proof (cases "i < 0")
  case True
  then have "i mod int (length vertices) = int (length vertices) + i"
    using assms by (smt (verit) mod_add_self1 mod_pos_pos_trivial)
  then show ?thesis using True assms by (simp add: np_row_def Let_def)
next
  case False
  then show ?thesis using assms by (simp add: np_row_def Let_def)
qed

text \<open>
  Claim C5. A joint with exactly one reference vertex, an index \<open>i\<close> in numpy's range
  for the vertex array, is resolved to that vertex's coordinates, whatever the
  relative position is: the two extrema coincide and their difference is zero.
\<close>

theorem single_reference_vertex:
  assumes "- int (length vertices) \<le> i" and "i < int (length vertices)"
  shows "calculate_joint_position vertices [i] rp = Inr (vertices ! nat (i mod int (length vertices)))"
proof -
  have "vadd p (vmul (vsub p p) rp) = p" for p
    by (cases p; cases rp) simp
  then show ?thesis
    using np_row_in_range [OF assms] by (simp add: calculate_joint_position_def)
qed

theorem single_reference_vertex_witness:
  "- int (length [Vec3 0 0 0, Vec3 1 2 3]) \<le> 1 \<and> 1 < int (length [Vec3 0 0 0, Vec3 1 2 3])
   \<and> calculate_joint_position [Vec3 0 0 0, Vec3 1 2 3] [1] (Vec3 7 (1/3) (-2)) = Inr (Vec3 1 2 3)"
  using single_reference_vertex [of "[Vec3 0 0 0, Vec3 1 2 3]" 1 "Vec3 7 (1/3) (-2)"]
  by simp

text \<open>
  In binary64 the same holds: the difference of a double and itself is \<open>0\<close>, the
  product of \<open>0\<close> and a finite number is \<open>0\<close>, and a double plus \<open>0\<close> is that double.
\<close>

lemma one_reference_vertex_f64:
  assumes "- int (length vertices) \<le> i" and "i < int (length vertices)"
      and "is_double_vec (vertices ! nat (i mod int (length vertices)))"
  shows "calculate_joint_position_f64 vertices [i] rp
           = Inr (Some (vertices ! nat (i mod int (length vertices))))"
proof -
  have "blend_f64 p p rp = Some p" if "is_double_vec p" for p
    using that
    by (cases p; cases rp)
       (simp add: blend_f64_def is_double_vec_def is_double_def f64_def [of 0] round_to_double_def [of 0])
  then show ?thesis
    using np_row_in_range [OF assms(1,2)] assms(3) by (simp add: calculate_joint_position_f64_def)
qed

subsection \<open>Rounding\<close>

lemmas f64_eval = f64_def round_to_double_def search_exponent.simps pow2_def round_half_even_def Let_def

text \<open>
  The double of \<open>0.1\<close>; two ties, one going down and one going up to the even
  significand; half of the smallest positive double, which goes to \<open>0\<close>, and three
  halves of it; the overflow at \<open>2^1024\<close>, the largest finite double, and the tie
  between the two, which overflows.
\<close>

lemma binary64_examples:
  "round_to_double (1/10) = 3602879701896397 / 2 ^ 55"
  "round_to_double (1 + 1 / 2 ^ 53) = 1"
  "round_to_double (1 + 3 / 2 ^ 53) = 1 + 1 / 2 ^ 51"
  "round_to_double (1 / 2 ^ 1075) = 0"
  "round_to_double (3 / 2 ^ 1075) = 1 / 2 ^ 1073"
  "f64 (2 ^ 1024) = None"
  "f64 (2 ^ 1024 - 2 ^ 971) = Some (2 ^ 1024 - 2 ^ 971)"
  "f64 (2 ^ 1024 - 2 ^ 970) = None"
  by (simp_all add: f64_eval)

lemma f64_0 [simp]: "f64 0 = Some 0"
  by (simp add: f64_def round_to_double_def)

lemma blend_f64_at_0:
  assumes "is_double_vec v1" and "vsub_f64 v2 v1 \<noteq> None"
  shows "blend_f64 v1 v2 (Vec3 0 0 0) = Some v1"
proof -
  from assms(2) obtain d where d: "vsub_f64 v2 v1 = Some d" by auto
  have m: "vmul_f64 d (Vec3 0 0 0) = Some (Vec3 0 0 0)" by (cases d) simp
  have a: "vadd_f64 v1 (Vec3 0 0 0) = Some v1"
    using assms(1) by (cases v1) (simp add: is_double_vec_def is_double_def)
  show ?thesis by (simp add: blend_f64_def d m a)
qed

lemma bbox_min_is_double:
  assumes "pts \<noteq> []" and "list_all is_double_vec pts"
  shows "is_double_vec (bbox_min pts)"
proof -
  have "is_double (Min (f ` set pts))" if "\<forall>p \<in> set pts. is_double (f p)"
    for f :: "vec3 \<Rightarrow> real"
  proof -
    have "Min (f ` set pts) \<in> f ` set pts"
      using assms(1) by (intro Min_in) simp_all
    then obtain p where "p \<in> set pts" "Min (f ` set pts) = f p" by auto
    with that show ?thesis by simp
  qed
  then show ?thesis
    using assms(2) by (simp add: bbox_min_def is_double_vec_def list_all_iff)
qed

text \<open>
  Rounding is monotone. Numbers of one exponent are rounded on one grid; between
  two exponents lies a power of two, which is on both grids.
\<close>

lemma pow2_powr: "pow2 e = 2 powr (real_of_int e)"
proof (cases "0 \<le> e")
  case True
  then have "real_of_int e = real (nat e)" by simp
  then show ?thesis using True by (simp add: pow2_def powr_realpow del: of_nat_nat)
next
  case False
  then have "real_of_int e = - real (nat (- e))" by simp
  then show ?thesis using False
    by (simp add: pow2_def powr_minus_divide powr_realpow del: of_nat_nat)
qed

lemma pow2_pos [simp]: "0 < pow2 e"
  by (simp add: pow2_powr)

lemma pow2_nonneg [simp]: "0 \<le> pow2 e"
  by (simp add: pow2_powr)

lemma pow2_mono: "a \<le> b \<Longrightarrow> pow2 a \<le> pow2 b"
  by (simp add: pow2_powr)

lemma pow2_add: "pow2 (a + b) = pow2 a * pow2 b"
  by (simp add: pow2_powr powr_add)

lemma search_exponent_spec:
  assumes "lo < hi"
  shows "lo \<le> search_exponent lo hi a \<and> search_exponent lo hi a < hi
       \<and> (lo < search_exponent lo hi a \<longrightarrow> pow2 (search_exponent lo hi a) \<le> a)
       \<and> (search_exponent lo hi a + 1 < hi \<longrightarrow> a < pow2 (search_exponent lo hi a + 1))"
  using assms
proof (induction lo hi a rule: search_exponent.induct)
  case (1 lo hi a)
  show ?case
  proof (cases "hi \<le> lo + 1")
    case True
    then show ?thesis using "1.prems" by (simp add: search_exponent.simps [of lo hi a])
  next
    case False
    let ?m = "(lo + hi) div 2"
    from False have m: "lo < ?m" "?m < hi" by auto
    show ?thesis
    proof (cases "pow2 ?m \<le> a")
      case True
      then have eq: "search_exponent lo hi a = search_exponent ?m hi a"
        using False by (simp add: search_exponent.simps [of lo hi a])
      from "1.IH"(1) [OF False True m(2)] m True show ?thesis
        unfolding eq by (auto simp: order.strict_implies_order)
    next
      case F2: False
      then have eq: "search_exponent lo hi a = search_exponent lo ?m a"
        using False by (simp add: search_exponent.simps [of lo hi a])
      from "1.IH"(2) [OF False F2 m(1)] m F2 show ?thesis
        unfolding eq
        by (smt (verit) pow2_mono)
    qed
  qed
qed

lemma expo_mono:
  assumes "a \<le> b"
  shows "expo a \<le> expo b"
proof (rule ccontr)
  assume "\<not> expo a \<le> expo b"
  then have lt: "expo b < expo a" by simp
  have sa: "- 1022 \<le> expo a \<and> expo a < 1024 \<and> (- 1022 < expo a \<longrightarrow> pow2 (expo a) \<le> a)"
    using search_exponent_spec [of "- 1022" 1024 a] by (simp add: expo_def)
  have sb: "- 1022 \<le> expo b \<and> (expo b + 1 < 1024 \<longrightarrow> b < pow2 (expo b + 1))"
    using search_exponent_spec [of "- 1022" 1024 b] by (simp add: expo_def)
  from lt sa sb have "pow2 (expo a) \<le> a" "b < pow2 (expo b + 1)" by auto
  moreover have "pow2 (expo b + 1) \<le> pow2 (expo a)" using lt by (intro pow2_mono) simp
  ultimately show False using assms by simp
qed

lemma round_half_even_int [simp]: "round_half_even (of_int n) = n"
  by (simp add: round_half_even_def)

lemma round_half_even_bounds: "\<lfloor>x\<rfloor> \<le> round_half_even x" "round_half_even x \<le> \<lfloor>x\<rfloor> + 1"
  by (simp_all add: round_half_even_def Let_def)

lemma round_half_even_mono:
  assumes "x \<le> y"
  shows "round_half_even x \<le> round_half_even y"
proof (cases "\<lfloor>x\<rfloor> = \<lfloor>y\<rfloor>")
  case True
  then show ?thesis using assms by (simp add: round_half_even_def Let_def)
next
  case False
  then have "\<lfloor>x\<rfloor> < \<lfloor>y\<rfloor>" using assms floor_mono [of x y] by simp
  then show ?thesis
    using round_half_even_bounds(2) [of x] round_half_even_bounds(1) [of y] by simp
qed

lemma round_to_double_rnd_abs:
  "round_to_double x = (if x = 0 then 0 else sgn x * rnd_abs \<bar>x\<bar>)"
  by (simp add: round_to_double_def rnd_abs_def expo_def Let_def)

lemma pow2_52: "pow2 e = 2 ^ 52 * pow2 (e - 52)"
proof -
  have "pow2 52 = 2 ^ 52" by (simp add: pow2_def)
  then show ?thesis using pow2_add [of 52 "e - 52"] by simp
qed

lemma pow2_53: "pow2 (e + 1) = 2 ^ 53 * pow2 (e - 52)"
proof -
  have "pow2 53 = 2 ^ 53" by (simp add: pow2_def)
  moreover have "53 + (e - 52) = e + 1" by simp
  ultimately show ?thesis using pow2_add [of 53 "e - 52"] by (simp add: add.commute)
qed

lemma rnd_abs_nonneg: "0 \<le> a \<Longrightarrow> 0 \<le> rnd_abs a"
proof -
  assume "0 \<le> a"
  then have "0 \<le> a / pow2 (expo a - 52)" by (rule divide_nonneg_pos) (rule pow2_pos)
  then have "round_half_even 0 \<le> round_half_even (a / pow2 (expo a - 52))"
    by (rule round_half_even_mono)
  then have "0 \<le> round_half_even (a / pow2 (expo a - 52))"
    using round_half_even_int [of 0] by simp
  then have "0 \<le> real_of_int (round_half_even (a / pow2 (expo a - 52))) * pow2 (expo a - 52)"
    by (intro mult_nonneg_nonneg less_imp_le [OF pow2_pos]) simp
  then show ?thesis by (simp add: rnd_abs_def)
qed

lemma rnd_abs_mono:
  assumes "0 < a" and "a \<le> b"
  shows "rnd_abs a \<le> rnd_abs b"
proof (cases "expo a = expo b")
  case True
  let ?q = "pow2 (expo b - 52)"
  have "a / ?q \<le> b / ?q" by (rule divide_right_mono [OF assms(2) less_imp_le [OF pow2_pos]])
  then have "round_half_even (a / ?q) \<le> round_half_even (b / ?q)" by (rule round_half_even_mono)
  then have "real_of_int (round_half_even (a / ?q)) * ?q \<le> real_of_int (round_half_even (b / ?q)) * ?q"
    by (intro mult_right_mono) simp_all
  then show ?thesis by (simp add: rnd_abs_def True)
next
  case False
  then have lt: "expo a < expo b" using expo_mono [OF assms(2)] by simp
  have sa: "expo a + 1 < 1024 \<longrightarrow> a < pow2 (expo a + 1)"
    using search_exponent_spec [of "- 1022" 1024 a] by (simp add: expo_def)
  have sb: "expo b < 1024 \<and> (- 1022 < expo b \<longrightarrow> pow2 (expo b) \<le> b) \<and> - 1022 \<le> expo a"
    using search_exponent_spec [of "- 1022" 1024 b] search_exponent_spec [of "- 1022" 1024 a]
    by (simp add: expo_def)
  from lt sa sb have ua: "a < pow2 (expo a + 1)" and lb: "pow2 (expo b) \<le> b" by auto
  let ?qa = "pow2 (expo a - 52)" and ?qb = "pow2 (expo b - 52)"
  have "a / ?qa \<le> of_int (2 ^ 53)"
    using ua pow2_53 [of "expo a"] by (simp add: divide_le_eq)
  then have "round_half_even (a / ?qa) \<le> round_half_even (of_int (2 ^ 53))"
    by (rule round_half_even_mono)
  then have "round_half_even (a / ?qa) \<le> 2 ^ 53" by (simp only: round_half_even_int)
  then have "real_of_int (round_half_even (a / ?qa)) \<le> 2 ^ 53"
    by (metis of_int_le_iff of_int_numeral of_int_power)
  then have "real_of_int (round_half_even (a / ?qa)) * ?qa \<le> 2 ^ 53 * ?qa"
    by (intro mult_right_mono) simp_all
  then have A: "rnd_abs a \<le> pow2 (expo a + 1)"
    by (simp add: rnd_abs_def pow2_53 [of "expo a"])
  have "of_int (2 ^ 52) \<le> b / ?qb"
    using lb pow2_52 [of "expo b"] by (simp add: le_divide_eq)
  then have "round_half_even (of_int (2 ^ 52)) \<le> round_half_even (b / ?qb)"
    by (rule round_half_even_mono)
  then have "2 ^ 52 \<le> round_half_even (b / ?qb)" by (simp only: round_half_even_int)
  then have "2 ^ 52 \<le> real_of_int (round_half_even (b / ?qb))"
    by (metis of_int_le_iff of_int_numeral of_int_power)
  then have "2 ^ 52 * ?qb \<le> real_of_int (round_half_even (b / ?qb)) * ?qb"
    by (intro mult_right_mono) simp_all
  then have B: "pow2 (expo b) \<le> rnd_abs b"
    by (simp add: rnd_abs_def pow2_52 [of "expo b"])
  have "pow2 (expo a + 1) \<le> pow2 (expo b)" using lt by (intro pow2_mono) simp
  with A B show ?thesis by simp
qed

lemma round_to_double_mono:
  assumes "x \<le> y"
  shows "round_to_double x \<le> round_to_double y"
proof -
  consider "x = 0" | "y = 0" "x < 0" | "0 < x" | "x < 0" "y < 0" | "x < 0" "0 < y"
    using assms by linarith
  then show ?thesis
  proof cases
    case 1
    then show ?thesis using assms rnd_abs_nonneg [of "\<bar>y\<bar>"]
      by (simp add: round_to_double_rnd_abs)
  next
    case 2
    then show ?thesis using rnd_abs_nonneg [of "\<bar>x\<bar>"]
      by (simp add: round_to_double_rnd_abs)
  next
    case 3
    then show ?thesis using assms rnd_abs_mono [of x y]
      by (simp add: round_to_double_rnd_abs)
  next
    case 4
    then show ?thesis using assms rnd_abs_mono [of "- y" "- x"]
      by (simp add: round_to_double_rnd_abs)
  next
    case 5
    then show ?thesis using rnd_abs_nonneg [of "\<bar>x\<bar>"] rnd_abs_nonneg [of "\<bar>y\<bar>"]
      by (simp add: round_to_double_rnd_abs)
  qed
qed

lemma f64_mono:
  assumes "x \<le> y" and "f64 x = Some a" and "f64 y = Some b"
  shows "a \<le> b"
  using assms round_to_double_mono [OF assms(1)]
  by (auto simp: f64_def Let_def split: if_splits)

lemma f64_lower:
  assumes "is_double v" and "v \<le> x" and "f64 x = Some r"
  shows "v \<le> r"
  using f64_mono [OF assms(2) _ assms(3)] assms(1) by (simp add: is_double_def)

lemma f64_nonneg:
  assumes "0 \<le> x" and "f64 x = Some r"
  shows "0 \<le> r"
  using f64_mono [OF assms(1) _ assms(2), of 0] by (simp add: f64_def round_to_double_def)

lemma vec_of_options_Some:
  "vec_of_options a b c = Some v \<longleftrightarrow> a = Some (vx v) \<and> b = Some (vy v) \<and> c = Some (vz v)"
  by (cases a; cases b; cases c; cases v) auto

lemma blend_f64_lower:
  assumes "is_double_vec v1" and "vec_le v1 v2" and "vec_le (Vec3 0 0 0) rp"
      and "blend_f64 v1 v2 rp = Some r"
  shows "vec_le v1 r"
proof -
  from assms(4) obtain d p where d: "vsub_f64 v2 v1 = Some d" and p: "vmul_f64 d rp = Some p"
    and r: "vadd_f64 v1 p = Some r"
    by (auto simp: blend_f64_def split: option.splits)
  obtain a1 b1 c1 where v1: "v1 = Vec3 a1 b1 c1" by (cases v1)
  obtain a2 b2 c2 where v2: "v2 = Vec3 a2 b2 c2" by (cases v2)
  obtain t1 t2 t3 where rp: "rp = Vec3 t1 t2 t3" by (cases rp)
  obtain d1 d2 d3 where dd: "d = Vec3 d1 d2 d3" by (cases d)
  obtain p1 p2 p3 where pp: "p = Vec3 p1 p2 p3" by (cases p)
  obtain r1 r2 r3 where rr: "r = Vec3 r1 r2 r3" by (cases r)
  have step: "a \<le> z"
    if "is_double a" "a \<le> b" "0 \<le> t" "f64 (b - a) = Some x" "f64 (x * t) = Some y" "f64 (a + y) = Some z"
    for a b t x y z
  proof -
    have "0 \<le> x" using that(2,4) f64_nonneg [of "b - a" x] by simp
    then have "0 \<le> x * t" using that(3) by simp
    then have "0 \<le> y" using that(5) by (rule f64_nonneg)
    then have "a \<le> a + y" by simp
    with that(1) show ?thesis using that(6) by (rule f64_lower)
  qed
  from d p r assms(1-3)
  have f: "f64 (a2 - a1) = Some d1" "f64 (b2 - b1) = Some d2" "f64 (c2 - c1) = Some d3"
      "f64 (d1 * t1) = Some p1" "f64 (d2 * t2) = Some p2" "f64 (d3 * t3) = Some p3"
      "f64 (a1 + p1) = Some r1" "f64 (b1 + p2) = Some r2" "f64 (c1 + p3) = Some r3"
      "is_double a1" "is_double b1" "is_double c1"
      "a1 \<le> a2" "b1 \<le> b2" "c1 \<le> c2" "0 \<le> t1" "0 \<le> t2" "0 \<le> t3"
    unfolding v1 v2 rp dd pp rr
    by (simp_all add: vec_of_options_Some vec_le_def is_double_vec_def)
  have "a1 \<le> r1" using f by (intro step [of a1 a2 t1 d1 p1 r1])
  moreover have "b1 \<le> r2" using f by (intro step [of b1 b2 t2 d2 p2 r2])
  moreover have "c1 \<le> r3" using f by (intro step [of c1 c2 t3 d3 p3 r3])
  ultimately show ?thesis by (simp add: v1 rr vec_le_def)
qed

lemma bbox_min_vec_le_max: "pts \<noteq> [] \<Longrightarrow> vec_le (bbox_min pts) (bbox_max pts)"
  using bbox_min_le_max [of pts] by (simp add: in_box_def vec_le_def)

text \<open>
  Claim C4, as the code has it. Let \<open>pts\<close> be the reference vertices gathered from
  the array, at least two of them. The position is
  \<open>v_min + (v_max - v_min) * relative_position\<close> computed in binary64, each of the
  three operations rounded: with exactly two points \<open>v_min = pts[0]\<close> and
  \<open>v_max = pts[1]\<close>, in the stored order; with more than two, \<open>v_min\<close> and \<open>v_max\<close>
  are the componentwise minimum and maximum over \<open>pts\<close>. With more than two points
  of double coordinates, the position at \<open>(0,0,0)\<close> is \<open>v_min\<close> when the extrema have
  a finite difference, and a finite position \<open>r\<close> at a relative position without
  negative coordinate is not below \<open>v_min\<close> in any coordinate. What the formula gives
  in exact arithmetic lies in the bounding box of \<open>pts\<close> when the relative position
  is in \<open>[0,1]^3\<close>, and is \<open>v_max\<close> at \<open>(1,1,1)\<close>.
\<close>

theorem extrema_rule_f64:
  assumes "np_rows vertices refs = Inr pts"
      and "2 \<le> length refs"
  shows "(length refs = 2 \<longrightarrow>
            calculate_joint_position_f64 vertices refs rp = Inr (blend_f64 (pts ! 0) (pts ! 1) rp))
       \<and> (2 < length refs \<longrightarrow>
            calculate_joint_position_f64 vertices refs rp
              = Inr (blend_f64 (bbox_min pts) (bbox_max pts) rp)
          \<and> (list_all is_double_vec pts \<and> vsub_f64 (bbox_max pts) (bbox_min pts) \<noteq> None \<longrightarrow>
               calculate_joint_position_f64 vertices refs (Vec3 0 0 0) = Inr (Some (bbox_min pts)))
          \<and> (list_all is_double_vec pts \<and> vec_le (Vec3 0 0 0) rp
               \<and> calculate_joint_position_f64 vertices refs rp = Inr (Some r) \<longrightarrow>
               vec_le (bbox_min pts) r)
          \<and> (in_unit_cube rp \<longrightarrow>
               in_box (bbox_min pts) (bbox_max pts)
                 (vadd (bbox_min pts) (vmul (vsub (bbox_max pts) (bbox_min pts)) rp)))
          \<and> vadd (bbox_min pts) (vmul (vsub (bbox_max pts) (bbox_min pts)) (Vec3 1 1 1))
              = bbox_max pts)"
proof -
  have len: "length pts = length refs"
    using assms(1) by (rule np_rows_length)
  have two: "calculate_joint_position_f64 vertices refs rp = Inr (blend_f64 (pts ! 0) (pts ! 1) rp)"
    if "length refs = 2"
  proof -
    from that len obtain a b where "pts = [a, b]"
      by (cases pts; cases "tl pts"; cases "tl (tl pts)") auto
    then show ?thesis using assms(1) by (simp add: calculate_joint_position_f64_def)
  qed
  have many: "calculate_joint_position_f64 vertices refs t
               = Inr (blend_f64 (bbox_min pts) (bbox_max pts) t)"
    if "2 < length refs" for t
  proof -
    from that len have "pts \<noteq> []" "2 < length pts" by auto
    then show ?thesis
      using assms(1)
      by (simp add: calculate_joint_position_f64_def np_min_axis0_bbox np_max_axis0_bbox Let_def)
  qed
  have zero: "calculate_joint_position_f64 vertices refs (Vec3 0 0 0) = Inr (Some (bbox_min pts))"
    if "2 < length refs" "list_all is_double_vec pts" "vsub_f64 (bbox_max pts) (bbox_min pts) \<noteq> None"
  proof -
    from that(1) len have "pts \<noteq> []" by auto
    then have "is_double_vec (bbox_min pts)" using that(2) by (rule bbox_min_is_double)
    then show ?thesis using many [OF that(1)] that(3) by (simp add: blend_f64_at_0)
  qed
  have lower: "vec_le (bbox_min pts) r"
    if "2 < length refs" "list_all is_double_vec pts" "vec_le (Vec3 0 0 0) rp"
       "calculate_joint_position_f64 vertices refs rp = Inr (Some r)"
  proof -
    from that(1) len have ne: "pts \<noteq> []" by auto
    have d: "is_double_vec (bbox_min pts)" using ne that(2) by (rule bbox_min_is_double)
    have le: "vec_le (bbox_min pts) (bbox_max pts)" using ne by (rule bbox_min_vec_le_max)
    have b: "blend_f64 (bbox_min pts) (bbox_max pts) rp = Some r"
      using many [OF that(1), of rp] that(4) by simp
    show ?thesis by (rule blend_f64_lower [OF d le that(3) b])
  qed
  have box: "in_box (bbox_min pts) (bbox_max pts)
               (vadd (bbox_min pts) (vmul (vsub (bbox_max pts) (bbox_min pts)) rp))"
    if "2 < length refs" "in_unit_cube rp"
  proof -
    from that len have "pts \<noteq> []" by auto
    then show ?thesis using that(2) by (intro blend_in_box bbox_min_le_max)
  qed
  show ?thesis
  proof (intro conjI impI)
    assume "length refs = 2"
    then show "calculate_joint_position_f64 vertices refs rp = Inr (blend_f64 (pts ! 0) (pts ! 1) rp)"
      by (rule two)
  next
    assume "2 < length refs"
    then show "calculate_joint_position_f64 vertices refs rp
                 = Inr (blend_f64 (bbox_min pts) (bbox_max pts) rp)"
      by (rule many)
  next
    assume "2 < length refs"
       and "list_all is_double_vec pts \<and> vsub_f64 (bbox_max pts) (bbox_min pts) \<noteq> None"
    then show "calculate_joint_position_f64 vertices refs (Vec3 0 0 0) = Inr (Some (bbox_min pts))"
      using zero by simp
  next
    assume "2 < length refs"
       and "list_all is_double_vec pts \<and> vec_le (Vec3 0 0 0) rp
              \<and> calculate_joint_position_f64 vertices refs rp = Inr (Some r)"
    then show "vec_le (bbox_min pts) r"
      using lower by simp
  next
    assume "2 < length refs" and "in_unit_cube rp"
    then show "in_box (bbox_min pts) (bbox_max pts)
                 (vadd (bbox_min pts) (vmul (vsub (bbox_max pts) (bbox_min pts)) rp))"
      by (rule box)
  next
    show "vadd (bbox_min pts) (vmul (vsub (bbox_max pts) (bbox_min pts)) (Vec3 1 1 1)) = bbox_max pts"
      by (rule blend_1)
  qed
qed

theorem extrema_rule_f64_witness:
  "np_rows [Vec3 0 0 0, Vec3 1 2 3, Vec3 (-1) 5 2] [0, 1, 2] = Inr [Vec3 0 0 0, Vec3 1 2 3, Vec3 (-1) 5 2]
   \<and> 2 \<le> length [0, 1, 2 :: int] \<and> 2 < length [0, 1, 2 :: int]
   \<and> list_all is_double_vec [Vec3 0 0 0, Vec3 1 2 3, Vec3 (-1) 5 2]
   \<and> vsub_f64 (Vec3 1 5 3) (Vec3 (-1) 0 0) \<noteq> None
   \<and> vec_le (Vec3 0 0 0) (Vec3 (1/2) (1/4) 1)
   \<and> in_unit_cube (Vec3 (1/2) (1/4) 1)
   \<and> calculate_joint_position_f64 [Vec3 0 0 0, Vec3 1 2 3, Vec3 (-1) 5 2] [0, 1, 2] (Vec3 (1/2) (1/4) 1)
       = Inr (Some (Vec3 0 (5/4) 3))
   \<and> calculate_joint_position_f64 [Vec3 0 0 0, Vec3 1 2 3, Vec3 (-1) 5 2] [0, 1, 2] (Vec3 0 0 0)
       = Inr (Some (Vec3 (-1) 0 0))
   \<and> vec_le (Vec3 (-1) 0 0) (Vec3 0 (5/4) 3)
   \<and> in_box (Vec3 (-1) 0 0) (Vec3 1 5 3) (Vec3 0 (5/4) 3)
   \<and> np_rows [Vec3 0 0 0, Vec3 1 2 3, Vec3 (-1) 5 2] [1, 2] = Inr [Vec3 1 2 3, Vec3 (-1) 5 2]
   \<and> 2 \<le> length [1, 2 :: int] \<and> length [1, 2 :: int] = 2
   \<and> calculate_joint_position_f64 [Vec3 0 0 0, Vec3 1 2 3, Vec3 (-1) 5 2] [1, 2] (Vec3 (1/2) (1/4) 1)
       = Inr (Some (Vec3 0 (11/4) 2))"
proof -
  let ?V = "[Vec3 0 0 0, Vec3 1 2 3, Vec3 (-1) 5 2]"
  let ?rp = "Vec3 (1/2) (1/4) 1"
  let ?r = "Vec3 0 (5/4) 3"
  have h1: "np_rows ?V [0, 1, 2] = Inr ?V" by (simp add: np_row_def)
  have h2: "2 \<le> length [0, 1, 2 :: int]" by simp
  have mn: "bbox_min ?V = Vec3 (-1) 0 0" by (simp add: bbox_min_def)
  have mx: "bbox_max ?V = Vec3 1 5 3" by (simp add: bbox_max_def)
  have dbl: "list_all is_double_vec ?V"
    by (simp add: is_double_vec_def is_double_def f64_eval)
  have fin: "vsub_f64 (Vec3 1 5 3) (Vec3 (-1) 0 0) \<noteq> None" by (simp add: f64_eval)
  have cube: "in_unit_cube ?rp" by (simp add: in_unit_cube_def in_box_def)
  have pos: "vec_le (Vec3 0 0 0) ?rp" by (simp add: vec_le_def)
  have b3: "blend_f64 (Vec3 (-1) 0 0) (Vec3 1 5 3) ?rp = Some ?r"
    by (simp add: blend_f64_def f64_eval)
  have three: "calculate_joint_position_f64 ?V [0, 1, 2] ?rp = Inr (Some ?r)
      \<and> calculate_joint_position_f64 ?V [0, 1, 2] (Vec3 0 0 0) = Inr (Some (Vec3 (-1) 0 0))
      \<and> vec_le (Vec3 (-1) 0 0) ?r
      \<and> in_box (Vec3 (-1) 0 0) (Vec3 1 5 3) ?r"
    using extrema_rule_f64 [OF h1 h2, where rp = ?rp and r = ?r] cube dbl fin pos
    by (simp add: mn mx b3)
  have k1: "np_rows ?V [1, 2] = Inr [Vec3 1 2 3, Vec3 (-1) 5 2]" by (simp add: np_row_def)
  have k2: "2 \<le> length [1, 2 :: int]" by simp
  have b2: "blend_f64 (Vec3 1 2 3) (Vec3 (-1) 5 2) ?rp = Some (Vec3 0 (11/4) 2)"
    by (simp add: blend_f64_def f64_eval)
  have two: "calculate_joint_position_f64 ?V [1, 2] ?rp = Inr (Some (Vec3 0 (11/4) 2))"
    using extrema_rule_f64 [OF k1 k2, where rp = ?rp] by (simp add: b2)
  from three two h1 k1 cube dbl fin pos show ?thesis by simp
qed

text \<open>
  Claim C4 as the specification words it does not hold of the computed position:
  the roundings can move it away from \<open>v_max\<close> at \<open>(1,1,1)\<close>, and out of the bounding
  box. Three vertices with the \<open>x\<close> coordinates \<open>-0.1\<close>, \<open>0\<close> and \<open>0.2\<close> (as doubles)
  and the relative position \<open>(1,1,1)\<close>: the difference \<open>0.2 - (-0.1)\<close> rounds up to
  \<open>0.30000000000000004\<close>, and \<open>-0.1\<close> plus that is \<open>0.20000000000000004\<close>, one unit in
  the last place above \<open>v_max = 0.2\<close>.
\<close>

theorem extrema_rule_rounding:
  "round_to_double (- (1/10)) = - (3602879701896397 / 2 ^ 55)
   \<and> round_to_double (2/10) = 3602879701896397 / 2 ^ 54
   \<and> list_all is_double_vec
        [Vec3 (- (3602879701896397 / 2 ^ 55)) 0 0, Vec3 0 0 0, Vec3 (3602879701896397 / 2 ^ 54) 0 0]
   \<and> is_double_vec (Vec3 1 1 1)
   \<and> in_unit_cube (Vec3 1 1 1)
   \<and> calculate_joint_position_f64
        [Vec3 (- (3602879701896397 / 2 ^ 55)) 0 0, Vec3 0 0 0, Vec3 (3602879701896397 / 2 ^ 54) 0 0]
        [0, 1, 2] (Vec3 1 1 1)
       = Inr (Some (Vec3 (7205759403792795 / 2 ^ 55) 0 0))
   \<and> bbox_min [Vec3 (- (3602879701896397 / 2 ^ 55)) 0 0, Vec3 0 0 0, Vec3 (3602879701896397 / 2 ^ 54) 0 0]
       = Vec3 (- (3602879701896397 / 2 ^ 55)) 0 0
   \<and> bbox_max [Vec3 (- (3602879701896397 / 2 ^ 55)) 0 0, Vec3 0 0 0, Vec3 (3602879701896397 / 2 ^ 54) 0 0]
       = Vec3 (7205759403792794 / 2 ^ 55) 0 0
   \<and> \<not> in_box (Vec3 (- (3602879701896397 / 2 ^ 55)) 0 0) (Vec3 (7205759403792794 / 2 ^ 55) 0 0)
         (Vec3 (7205759403792795 / 2 ^ 55) 0 0)"
  by (simp add: calculate_joint_position_f64_def np_row_def blend_f64_def bbox_min_def bbox_max_def
        in_box_def in_unit_cube_def is_double_vec_def is_double_def f64_eval)

text \<open>
  Claim C6. When the map \<open>m\<close> left by the loop has \<open>Neck\<close>, \<open>LeftArm\<close> and
  \<open>RightArm\<close>, the function returns \<open>m\<close> with \<open>LeftShoulder\<close> set to
  \<open>Neck + (LeftArm - Neck) / 3\<close> and \<open>RightShoulder\<close> set to
  \<open>Neck + (RightArm - Neck) / 3\<close>, whether or not \<open>m\<close> had these keys, every other
  key as in \<open>m\<close>, and prints nothing. \<open>Neck = (0,0,0)\<close> and \<open>LeftArm = (3,3,3)\<close> give
  \<open>LeftShoulder = (1,1,1)\<close>.
\<close>

theorem shoulder_rule:
  assumes "resolve_joints vertices spec [] = Inr m"
      and "map_of m ''Neck'' = Some neck"
      and "map_of m ''LeftArm'' = Some left_arm"
      and "map_of m ''RightArm'' = Some right_arm"
  shows "\<exists>m'. calculate_joint_positions vertices spec = Inr (m', [])
           \<and> map_of m' = (map_of m)
                (''LeftShoulder'' \<mapsto> vadd neck (vdiv (vsub left_arm neck) 3),
                 ''RightShoulder'' \<mapsto> vadd neck (vdiv (vsub right_arm neck) 3))
           \<and> (neck = Vec3 0 0 0 \<and> left_arm = Vec3 3 3 3 \<longrightarrow>
                map_of m' ''LeftShoulder'' = Some (Vec3 1 1 1))"
  using assms
  by (auto simp: calculate_joint_positions_def shoulders_def Let_def update_conv')

theorem shoulder_rule_witness:
  "resolve_joints [Vec3 0 0 0, Vec3 3 3 3, Vec3 (-6) 0 3]
      [(''Neck'', \<lparr>reference_vertices = [0], relative_position = None\<rparr>),
       (''LeftArm'', \<lparr>reference_vertices = [1], relative_position = None\<rparr>),
       (''LeftShoulder'', \<lparr>reference_vertices = [2], relative_position = None\<rparr>),
       (''RightArm'', \<lparr>reference_vertices = [2], relative_position = None\<rparr>)] []
     = Inr [(''Neck'', Vec3 0 0 0), (''LeftArm'', Vec3 3 3 3), (''LeftShoulder'', Vec3 (-6) 0 3),
            (''RightArm'', Vec3 (-6) 0 3)]
   \<and> calculate_joint_positions [Vec3 0 0 0, Vec3 3 3 3, Vec3 (-6) 0 3]
      [(''Neck'', \<lparr>reference_vertices = [0], relative_position = None\<rparr>),
       (''LeftArm'', \<lparr>reference_vertices = [1], relative_position = None\<rparr>),
       (''LeftShoulder'', \<lparr>reference_vertices = [2], relative_position = None\<rparr>),
       (''RightArm'', \<lparr>reference_vertices = [2], relative_position = None\<rparr>)]
     = Inr ([(''Neck'', Vec3 0 0 0), (''LeftArm'', Vec3 3 3 3), (''LeftShoulder'', Vec3 1 1 1),
             (''RightArm'', Vec3 (-6) 0 3), (''RightShoulder'', Vec3 (-2) 0 1)], [])"
proof -
  let ?V = "[Vec3 0 0 0, Vec3 3 3 3, Vec3 (-6) 0 3]"
  let ?S = "[(''Neck'', \<lparr>reference_vertices = [0], relative_position = None\<rparr>),
       (''LeftArm'', \<lparr>reference_vertices = [1], relative_position = None\<rparr>),
       (''LeftShoulder'', \<lparr>reference_vertices = [2], relative_position = None\<rparr>),
       (''RightArm'', \<lparr>reference_vertices = [2], relative_position = None\<rparr>)]"
  let ?m = "[(''Neck'', Vec3 0 0 0), (''LeftArm'', Vec3 3 3 3), (''LeftShoulder'', Vec3 (-6) 0 3),
            (''RightArm'', Vec3 (-6) 0 3)]"
  have r: "resolve_joints ?V ?S [] = Inr ?m"
    by (simp add: calculate_joint_position_def np_row_def spec_relative_position_def
          default_relative_position_def)
  have "map_of ?m ''Neck'' = Some (Vec3 0 0 0)" "map_of ?m ''LeftArm'' = Some (Vec3 3 3 3)"
       "map_of ?m ''RightArm'' = Some (Vec3 (-6) 0 3)"
    by simp_all
  from shoulder_rule [OF r this] r show ?thesis
    by (simp add: calculate_joint_positions_def shoulders_def)
qed

text \<open>
  Claim C2, as the code has it. When one of \<open>Neck\<close>, \<open>LeftArm\<close>, \<open>RightArm\<close> is
  missing from the map \<open>m\<close> left by the loop, the function still returns a map, and
  prints one message, naming the first missing key in the order \<open>Neck\<close>, \<open>LeftArm\<close>,
  \<open>RightArm\<close>. \<open>RightShoulder\<close> is neither added nor overwritten. When \<open>Neck\<close> or
  \<open>LeftArm\<close> is missing the map is returned as it was, so \<open>LeftShoulder\<close> is
  untouched too.
\<close>

theorem shoulder_step_missing_name:
  assumes "resolve_joints vertices spec [] = Inr m"
      and "map_of m ''Neck'' = None \<or> map_of m ''LeftArm'' = None \<or> map_of m ''RightArm'' = None"
  shows "\<exists>m'. calculate_joint_positions vertices spec
                 = Inr (m', [UnrecognizedJointName
                          (if map_of m ''Neck'' = None then ''Neck''
                           else if map_of m ''LeftArm'' = None then ''LeftArm'' else ''RightArm'')])
           \<and> map_of m' ''RightShoulder'' = map_of m ''RightShoulder''
           \<and> (map_of m ''Neck'' = None \<or> map_of m ''LeftArm'' = None \<longrightarrow> m' = m)"
  using assms
  by (auto simp: calculate_joint_positions_def shoulders_def Let_def update_conv' split: option.splits)

theorem shoulder_step_missing_name_witness:
  "resolve_joints [Vec3 0 0 0, Vec3 3 3 3]
      [(''Neck'', \<lparr>reference_vertices = [0], relative_position = None\<rparr>),
       (''RightArm'', \<lparr>reference_vertices = [1], relative_position = None\<rparr>)] []
     = Inr [(''Neck'', Vec3 0 0 0), (''RightArm'', Vec3 3 3 3)]
   \<and> map_of [(''Neck'', Vec3 0 0 0), (''RightArm'', Vec3 3 3 3)] ''LeftArm'' = None
   \<and> calculate_joint_positions [Vec3 0 0 0, Vec3 3 3 3]
      [(''Neck'', \<lparr>reference_vertices = [0], relative_position = None\<rparr>),
       (''RightArm'', \<lparr>reference_vertices = [1], relative_position = None\<rparr>)]
     = Inr ([(''Neck'', Vec3 0 0 0), (''RightArm'', Vec3 3 3 3)], [UnrecognizedJointName ''LeftArm''])"
proof -
  let ?V = "[Vec3 0 0 0, Vec3 3 3 3]"
  let ?S = "[(''Neck'', \<lparr>reference_vertices = [0], relative_position = None\<rparr>),
       (''RightArm'', \<lparr>reference_vertices = [1], relative_position = None\<rparr>)]"
  let ?m = "[(''Neck'', Vec3 0 0 0), (''RightArm'', Vec3 3 3 3)]"
  have r: "resolve_joints ?V ?S [] = Inr ?m"
    by (simp add: calculate_joint_position_def np_row_def spec_relative_position_def
          default_relative_position_def)
  have n: "map_of ?m ''Neck'' = None \<or> map_of ?m ''LeftArm'' = None \<or> map_of ?m ''RightArm'' = None"
    by simp
  from shoulder_step_missing_name [OF r n] r show ?thesis
    by simp
qed

text \<open>
  Claim C2 as stated fails when only \<open>RightArm\<close> is missing: the assignment to
  \<open>LeftShoulder\<close> precedes the lookup of \<open>RightArm\<close> inside the \<open>try\<close> block, so
  \<open>LeftShoulder\<close> is added although the step ends with the diagnostic.
\<close>

theorem shoulder_step_not_atomic:
  "resolve_joints [Vec3 0 0 0, Vec3 3 3 3]
      [(''Neck'', \<lparr>reference_vertices = [0], relative_position = None\<rparr>),
       (''LeftArm'', \<lparr>reference_vertices = [1], relative_position = None\<rparr>)] []
     = Inr [(''Neck'', Vec3 0 0 0), (''LeftArm'', Vec3 3 3 3)]
   \<and> calculate_joint_positions [Vec3 0 0 0, Vec3 3 3 3]
      [(''Neck'', \<lparr>reference_vertices = [0], relative_position = None\<rparr>),
       (''LeftArm'', \<lparr>reference_vertices = [1], relative_position = None\<rparr>)]
     = Inr ([(''Neck'', Vec3 0 0 0), (''LeftArm'', Vec3 3 3 3), (''LeftShoulder'', Vec3 1 1 1)],
            [UnrecognizedJointName ''RightArm''])"
  by (simp add: calculate_joint_positions_def shoulders_def calculate_joint_position_def np_row_def
        spec_relative_position_def default_relative_position_def)

subsection \<open>The generic rule in the returned map\<close>

text \<open>
  What \<open>calculate_joint_position\<close> returns for an entry of the specification is
  the entry of that joint in the map \<open>calculate_joint_positions\<close> returns, for every
  joint but the two shoulders, which the special case may overwrite.
\<close>

lemma resolve_joints_keeps:
  assumes "resolve_joints vertices spec m0 = Inr m" and "joint_name \<notin> fst ` set spec"
  shows "map_of m joint_name = map_of m0 joint_name"
  using assms
proof (induction spec arbitrary: m0)
  case Nil
  then show ?case by simp
next
  case (Cons entry spec)
  obtain k js where entry: "entry = (k, js)" by (cases entry)
  from Cons.prems(1) obtain p where
    p: "calculate_joint_position vertices (reference_vertices js) (spec_relative_position js) = Inr p"
    and rest: "resolve_joints vertices spec (AList.update k p m0) = Inr m"
    by (auto simp: entry split: sum.splits)
  from Cons.prems(2) have "joint_name \<noteq> k" "joint_name \<notin> fst ` set spec"
    by (auto simp: entry)
  with Cons.IH [OF rest] show ?case
    by (simp add: update_conv')
qed

lemma resolve_joints_entry:
  assumes "resolve_joints vertices spec m0 = Inr m" and "distinct (map fst spec)"
      and "(joint_name, js) \<in> set spec"
  shows "\<exists>p. calculate_joint_position vertices (reference_vertices js) (spec_relative_position js)
               = Inr p
           \<and> map_of m joint_name = Some p"
  using assms
proof (induction spec arbitrary: m0)
  case Nil
  then show ?case by simp
next
  case (Cons entry spec)
  obtain k js' where entry: "entry = (k, js')" by (cases entry)
  from Cons.prems(1) obtain p where
    p: "calculate_joint_position vertices (reference_vertices js') (spec_relative_position js') = Inr p"
    and rest: "resolve_joints vertices spec (AList.update k p m0) = Inr m"
    by (auto simp: entry split: sum.splits)
  from Cons.prems(2) have d: "k \<notin> fst ` set spec" "distinct (map fst spec)"
    by (simp_all add: entry)
  show ?case
  proof (cases "(joint_name, js) = (k, js')")
    case True
    from resolve_joints_keeps [OF rest d(1)] have "map_of m k = Some p"
      by (simp add: update_conv')
    with True p show ?thesis by simp
  next
    case False
    with Cons.prems(3) have "(joint_name, js) \<in> set spec" by (auto simp: entry)
    from Cons.IH [OF rest d(2) this] show ?thesis .
  qed
qed

lemma shoulders_other:
  assumes "joint_name \<noteq> ''LeftShoulder''" and "joint_name \<noteq> ''RightShoulder''"
  shows "map_of (fst (shoulders m)) joint_name = map_of m joint_name"
  using assms by (simp add: shoulders_def Let_def update_conv' split: option.splits)

lemma calculate_joint_positions_entry:
  assumes "calculate_joint_positions vertices spec = Inr (m, printed)"
      and "distinct (map fst spec)" and "(joint_name, js) \<in> set spec"
      and "joint_name \<noteq> ''LeftShoulder''" and "joint_name \<noteq> ''RightShoulder''"
  shows "\<exists>p. calculate_joint_position vertices (reference_vertices js) (spec_relative_position js)
               = Inr p
           \<and> map_of m joint_name = Some p"
proof -
  from assms(1) obtain m0 where m0: "resolve_joints vertices spec [] = Inr m0"
    and m: "m = fst (shoulders m0)"
    by (auto simp: calculate_joint_positions_def split: sum.splits)
  from resolve_joints_entry [OF m0 assms(2,3)] shoulders_other [OF assms(4,5), of m0]
  show ?thesis by (simp add: m)
qed

section \<open>Skin binder: proofs\<close>

lemma parents_first_iff:
  "parents_first ns \<longleftrightarrow> (\<forall>h<length ns. \<forall>p. node_parent (ns ! h) = Some p \<longrightarrow> p < h)"
  by (auto simp: parents_first_def list_all_iff split: option.splits)

lemma EvaluateGlobalTransform_total:
  assumes "parents_first ns" "h < length ns"
  shows "\<exists>T. EvaluateGlobalTransform ns h = Inr T"
  using assms(2)
proof (induction h rule: less_induct)
  case (less h)
  show ?case
  proof (cases "node_parent (ns ! h)")
    case None
    then show ?thesis using less.prems by (simp add: EvaluateGlobalTransform.simps [of ns h])
  next
    case (Some p)
    then have "p < h" using assms(1) less.prems by (simp add: parents_first_iff)
    moreover from this less have "\<exists>T. EvaluateGlobalTransform ns p = Inr T" by simp
    ultimately show ?thesis
      using less.prems Some by (auto simp: EvaluateGlobalTransform.simps [of ns h])
  qed
qed

lemma fold_AddControlPointIndex:
  "fold (\<lambda>(vid, weight). AddControlPointIndex vid weight) ps c
     = c\<lparr>control_point_indices := control_point_indices c @ ps\<rparr>"
  by (induction ps arbitrary: c) (auto simp: AddControlPointIndex_def)

lemma bind_joints_result:
  assumes "parents_first (nodes w)" and "snd ` set items \<subseteq> {..<length (nodes w)}"
  shows "\<exists>cs. bind_joints w clusters items skin pose
                = Inr (skin\<lparr>skin_clusters := skin_clusters skin @ cs\<rparr>,
                       pose\<lparr>pose_items := pose_items pose
                              @ map (\<lambda>c. (the (link c), transform_link_matrix c)) cs\<rparr>)
            \<and> list_all2 (bound_to (nodes w) clusters) (with_cluster clusters items) cs"
  using assms(2)
proof (induction items arbitrary: skin pose)
  case Nil
  show ?case by (simp add: with_cluster_def)
next
  case (Cons item items)
  obtain n h where item: "item = (n, h)" by (cases item)
  from Cons.prems have rest: "snd ` set items \<subseteq> {..<length (nodes w)}" by simp
  show ?case
  proof (cases "map_of clusters n")
    case None
    with Cons.IH [OF rest, of skin pose] item show ?thesis
      by (simp add: with_cluster_def)
  next
    case (Some ci)
    from Cons.prems item have "h < length (nodes w)" by simp
    with assms(1) obtain T where T: "EvaluateGlobalTransform (nodes w) h = Inr T"
      using EvaluateGlobalTransform_total by blast
    define c where "c = \<lparr>link = Some h, link_mode = eNormalize,
                          control_point_indices = zip (indices ci) (weights ci),
                          transform_link_matrix = T\<rparr>"
    have b: "bound_to (nodes w) clusters (n, h) c"
      by (simp add: bound_to_def c_def Some T)
    from Cons.IH [OF rest, of "AddCluster c skin" "pose_Add h T pose"]
    obtain cs where cs:
      "bind_joints w clusters items (AddCluster c skin) (pose_Add h T pose)
         = Inr ((AddCluster c skin)\<lparr>skin_clusters := skin_clusters (AddCluster c skin) @ cs\<rparr>,
               (pose_Add h T pose)\<lparr>pose_items := pose_items (pose_Add h T pose)
                  @ map (\<lambda>c. (the (link c), transform_link_matrix c)) cs\<rparr>)"
      "list_all2 (bound_to (nodes w) clusters) (with_cluster clusters items) cs"
      by blast
    have step: "bind_joints w clusters (item # items) skin pose
                  = bind_joints w clusters items (AddCluster c skin) (pose_Add h T pose)"
      by (simp add: item Some T fold_AddControlPointIndex FbxCluster_Create_def c_def)
    have "bind_joints w clusters (item # items) skin pose
            = Inr (skin\<lparr>skin_clusters := skin_clusters skin @ c # cs\<rparr>,
                   pose\<lparr>pose_items := pose_items pose
                          @ map (\<lambda>c. (the (link c), transform_link_matrix c)) (c # cs)\<rparr>)"
      unfolding step cs(1) by (simp add: AddCluster_def pose_Add_def c_def)
    moreover have "list_all2 (bound_to (nodes w) clusters) (with_cluster clusters (item # items)) (c # cs)"
      using cs(2) b by (simp add: with_cluster_def item Some)
    ultimately show ?thesis by blast
  qed
qed

lemma length_with_cluster:
  assumes "distinct (map fst items)"
  shows "length (with_cluster clusters items) = card (fst ` set items \<inter> dom (map_of clusters))"
proof -
  have inj: "inj_on fst (set (with_cluster clusters items))"
    using assms by (auto simp: with_cluster_def inj_on_def distinct_map)
  have "distinct (with_cluster clusters items)"
    using assms by (simp add: with_cluster_def distinct_map)
  then have "length (with_cluster clusters items) = card (set (with_cluster clusters items))"
    by (simp add: distinct_card)
  also have "\<dots> = card (fst ` set (with_cluster clusters items))"
    using inj by (simp add: card_image)
  also have "fst ` set (with_cluster clusters items) = fst ` set items \<inter> dom (map_of clusters)"
    by (auto simp: with_cluster_def image_iff dom_def) 
  finally show ?thesis .
qed

lemma add_skin_and_bind_pose_result:
  assumes "parents_first (nodes w)"
      and "snd ` set fbx_node_map \<subseteq> {..<length (nodes w)}"
      and "fbx_mesh_node < length (nodes w)"
      and "node_attribute (nodes w ! fbx_mesh_node) = Some (Mesh m)"
  shows "\<exists>w' cs T.
           add_skin_and_bind_pose fbx_node_map fbx_mesh_node clusters w = Inr w'
         \<and> EvaluateGlobalTransform (nodes w) fbx_mesh_node = Inr T
         \<and> list_all2 (bound_to (nodes w) clusters) (with_cluster clusters fbx_node_map) cs
         \<and> mesh_deformers w' fbx_mesh_node = deformers m @ [\<lparr>skin_clusters = cs\<rparr>]
         \<and> poses w' = poses w @ [\<lparr>is_bind_pose = True, pose_items =
               (fbx_mesh_node, T) # map (\<lambda>c. (the (link c), transform_link_matrix c)) cs\<rparr>]
         \<and> stdout w' = stdout w"
proof -
  from assms(1,3) obtain T where T: "EvaluateGlobalTransform (nodes w) fbx_mesh_node = Inr T"
    using EvaluateGlobalTransform_total by blast
  from bind_joints_result [OF assms(1,2), of clusters FbxSkin_Create
         "pose_Add fbx_mesh_node T (FbxPose_Create\<lparr>is_bind_pose := True\<rparr>)"]
  obtain cs where cs:
    "bind_joints w clusters fbx_node_map FbxSkin_Create
        (pose_Add fbx_mesh_node T (FbxPose_Create\<lparr>is_bind_pose := True\<rparr>))
       = Inr (\<lparr>skin_clusters = cs\<rparr>,
              \<lparr>is_bind_pose = True, pose_items =
                 (fbx_mesh_node, T) # map (\<lambda>c. (the (link c), transform_link_matrix c)) cs\<rparr>)"
    "list_all2 (bound_to (nodes w) clusters) (with_cluster clusters fbx_node_map) cs"
    by (auto simp: FbxSkin_Create_def FbxPose_Create_def pose_Add_def)
  show ?thesis
    using assms(3,4) T cs
    by (simp add: add_skin_and_bind_pose_def GetNodeAttribute_def mesh_deformers_def
          FbxSkin_Create_def FbxPose_Create_def pose_Add_def)
qed

lemma bound_to_link:
  "list_all2 (bound_to ns clusters) items cs \<Longrightarrow> map link cs = map (Some \<circ> snd) items"
  by (induction rule: list_all2_induct) (simp_all add: bound_to_def)

lemma bound_to_pose:
  "list_all2 (bound_to ns clusters) items cs \<Longrightarrow>
     map fst (map (\<lambda>c. (the (link c), transform_link_matrix c)) cs) = map snd items
     \<and> (\<forall>(h, T) \<in> set (map (\<lambda>c. (the (link c), transform_link_matrix c)) cs).
           EvaluateGlobalTransform ns h = Inr T)"
  by (induction rule: list_all2_induct) (simp_all add: bound_to_def)

text \<open>
  Claim C7. Take a scene whose parents come first, a node map (a dict, its keys
  distinct) to nodes of the scene, and a mesh node that carries a mesh. The binder
  returns, prints nothing, and attaches one new skin to the mesh. The skin's
  clusters are, in the order of the node map, one for each item whose joint name has
  a cluster entry, linked to that item's node, and no other: a joint without cluster
  entry gets none, and a cluster entry whose name is not in the node map is never
  looked at. The keys of a dict being distinct, the number of clusters is the number
  of names that are in both.
\<close>

theorem one_cluster_per_bound_joint:
  assumes "parents_first (nodes w)"
      and "snd ` set fbx_node_map \<subseteq> {..<length (nodes w)}"
      and "fbx_mesh_node < length (nodes w)"
      and "node_attribute (nodes w ! fbx_mesh_node) = Some (Mesh m)"
      and "distinct (map fst fbx_node_map)"
  shows "\<exists>w' skin.
           add_skin_and_bind_pose fbx_node_map fbx_mesh_node clusters w = Inr w'
         \<and> mesh_deformers w' fbx_mesh_node = deformers m @ [skin]
         \<and> map link (skin_clusters skin) = map (Some \<circ> snd) (with_cluster clusters fbx_node_map)
         \<and> length (skin_clusters skin) = card (fst ` set fbx_node_map \<inter> dom (map_of clusters))
         \<and> stdout w' = stdout w"
proof -
  from add_skin_and_bind_pose_result [OF assms(1-4), of clusters]
  obtain w' cs where r:
    "add_skin_and_bind_pose fbx_node_map fbx_mesh_node clusters w = Inr w'"
    "list_all2 (bound_to (nodes w) clusters) (with_cluster clusters fbx_node_map) cs"
    "mesh_deformers w' fbx_mesh_node = deformers m @ [\<lparr>skin_clusters = cs\<rparr>]"
    "stdout w' = stdout w"
    by blast
  have "length cs = length (with_cluster clusters fbx_node_map)"
    using r(2) by (simp add: list_all2_lengthD)
  then have "length cs = card (fst ` set fbx_node_map \<inter> dom (map_of clusters))"
    using assms(5) by (simp add: length_with_cluster)
  with r bound_to_link [OF r(2)] show ?thesis by auto
qed

theorem one_cluster_per_bound_joint_witness:
  "parents_first (nodes example_world)
   \<and> (snd ` set [(''Root'', 2), (''Child'', 3)] \<subseteq> {..<length (nodes example_world)})
   \<and> 1 < length (nodes example_world)
   \<and> node_attribute (nodes example_world ! 1) = Some (Mesh \<lparr>deformers = []\<rparr>)
   \<and> distinct (map fst [(''Root'', 2::nat), (''Child'', 3)])
   \<and> (\<exists>w' skin.
         add_skin_and_bind_pose [(''Root'', 2), (''Child'', 3)] 1 example_clusters example_world = Inr w'
       \<and> mesh_deformers w' 1 = [skin]
       \<and> map link (skin_clusters skin) = [Some 3]
       \<and> length (skin_clusters skin) = 1
       \<and> stdout w' = [])"
proof -
  have h1: "parents_first (nodes example_world)" by (simp add: parents_first_def example_world_def)
  have h2: "snd ` set [(''Root'', 2), (''Child'', 3)] \<subseteq> {..<length (nodes example_world)}"
    by (simp add: example_world_def)
  have h3: "1 < length (nodes example_world)" by (simp add: example_world_def)
  have h4: "node_attribute (nodes example_world ! 1) = Some (Mesh \<lparr>deformers = []\<rparr>)" by (simp add: example_world_def)
  have h5: "distinct (map fst [(''Root'', 2::nat), (''Child'', 3)])" by simp
  have c: "card (fst ` set [(''Root'', 2::nat), (''Child'', 3)] \<inter> dom (map_of example_clusters)) = 1"
    by (simp add: example_clusters_def dom_map_of_conv_image_fst)
  have s: "stdout example_world = []" by (simp add: example_world_def)
  from one_cluster_per_bound_joint [OF h1 h2 h3 h4 h5, of example_clusters] h1 h2 h3 h4 h5
  show ?thesis
    by (simp add: c s with_cluster_def example_clusters_def)
qed

text \<open>
  Claim C10. On such a scene, node map and mesh node, for every joint the binder
  makes a cluster for, the influences added to the cluster are the pairs of
  \<open>zip(indices, weights)\<close>; their number is the minimum of the two lengths, so what
  the longer sequence has beyond the shorter one is dropped. The binder returns and
  prints nothing.
\<close>

theorem influences_are_zipped:
  assumes "parents_first (nodes w)"
      and "snd ` set fbx_node_map \<subseteq> {..<length (nodes w)}"
      and "fbx_mesh_node < length (nodes w)"
      and "node_attribute (nodes w ! fbx_mesh_node) = Some (Mesh m)"
  shows "\<exists>w' skin.
           add_skin_and_bind_pose fbx_node_map fbx_mesh_node clusters w = Inr w'
         \<and> mesh_deformers w' fbx_mesh_node = deformers m @ [skin]
         \<and> list_all2
              (\<lambda>item c. case map_of clusters (fst item) of
                           None \<Rightarrow> False
                         | Some ci \<Rightarrow>
                             control_point_indices c = zip (indices ci) (weights ci)
                           \<and> length (control_point_indices c)
                               = min (length (indices ci)) (length (weights ci)))
              (with_cluster clusters fbx_node_map) (skin_clusters skin)
         \<and> stdout w' = stdout w"
proof -
  from add_skin_and_bind_pose_result [OF assms(1-4), of clusters]
  obtain w' cs where r:
    "add_skin_and_bind_pose fbx_node_map fbx_mesh_node clusters w = Inr w'"
    "list_all2 (bound_to (nodes w) clusters) (with_cluster clusters fbx_node_map) cs"
    "mesh_deformers w' fbx_mesh_node = deformers m @ [\<lparr>skin_clusters = cs\<rparr>]"
    "stdout w' = stdout w"
    by blast
  from r(2) have "list_all2
              (\<lambda>item c. case map_of clusters (fst item) of
                           None \<Rightarrow> False
                         | Some ci \<Rightarrow>
                             control_point_indices c = zip (indices ci) (weights ci)
                           \<and> length (control_point_indices c)
                               = min (length (indices ci)) (length (weights ci)))
              (with_cluster clusters fbx_node_map) cs"
    by (rule list_all2_mono) (auto simp: bound_to_def split: option.splits)
  with r show ?thesis by auto
qed

theorem influences_are_zipped_witness:
  "parents_first (nodes example_world)
   \<and> (snd ` set [(''Root'', 2), (''Child'', 3)] \<subseteq> {..<length (nodes example_world)})
   \<and> 1 < length (nodes example_world)
   \<and> node_attribute (nodes example_world ! 1) = Some (Mesh \<lparr>deformers = []\<rparr>)
   \<and> (\<exists>w' skin.
         add_skin_and_bind_pose [(''Root'', 2), (''Child'', 3)] 1 example_clusters example_world = Inr w'
       \<and> mesh_deformers w' 1 = [skin]
       \<and> map control_point_indices (skin_clusters skin) = [[(0, 1), (1, 1/2)]]
       \<and> stdout w' = [])"
proof -
  have h1: "parents_first (nodes example_world)" by (simp add: parents_first_def example_world_def)
  have h2: "snd ` set [(''Root'', 2), (''Child'', 3)] \<subseteq> {..<length (nodes example_world)}"
    by (simp add: example_world_def)
  have h3: "1 < length (nodes example_world)" by (simp add: example_world_def)
  have h4: "node_attribute (nodes example_world ! 1) = Some (Mesh \<lparr>deformers = []\<rparr>)" by (simp add: example_world_def)
  have s: "stdout example_world = []" by (simp add: example_world_def)
  from influences_are_zipped [OF h1 h2 h3 h4, of example_clusters] h1 h2 h3 h4
  show ?thesis
    by (auto simp: s with_cluster_def example_clusters_def list_all2_Cons1)
qed

text \<open>
  Claim C3, as the code has it. On such a scene, node map and mesh node, the binder
  adds one pose to the scene, a bind pose. Its records are, in order, one for the mesh node and one for each item of the node
  map whose joint name has a cluster entry, and each record holds the node's global
  transform as evaluated in the scene the binder was called on.
\<close>

theorem bind_pose_snapshots:
  assumes "parents_first (nodes w)"
      and "snd ` set fbx_node_map \<subseteq> {..<length (nodes w)}"
      and "fbx_mesh_node < length (nodes w)"
      and "node_attribute (nodes w ! fbx_mesh_node) = Some (Mesh m)"
  shows "\<exists>w' pose.
           add_skin_and_bind_pose fbx_node_map fbx_mesh_node clusters w = Inr w'
         \<and> poses w' = poses w @ [pose]
         \<and> is_bind_pose pose
         \<and> map fst (pose_items pose) = fbx_mesh_node # map snd (with_cluster clusters fbx_node_map)
         \<and> (\<forall>(h, T) \<in> set (pose_items pose). EvaluateGlobalTransform (nodes w) h = Inr T)"
proof -
  from add_skin_and_bind_pose_result [OF assms(1-4), of clusters]
  obtain w' cs T where r:
    "add_skin_and_bind_pose fbx_node_map fbx_mesh_node clusters w = Inr w'"
    "EvaluateGlobalTransform (nodes w) fbx_mesh_node = Inr T"
    "list_all2 (bound_to (nodes w) clusters) (with_cluster clusters fbx_node_map) cs"
    "poses w' = poses w @ [\<lparr>is_bind_pose = True, pose_items =
               (fbx_mesh_node, T) # map (\<lambda>c. (the (link c), transform_link_matrix c)) cs\<rparr>]"
    by blast
  from r(1,2,4) bound_to_pose [OF r(3)] show ?thesis by auto
qed

theorem bind_pose_snapshots_witness:
  "parents_first (nodes example_world)
   \<and> (snd ` set [(''Root'', 2), (''Child'', 3)] \<subseteq> {..<length (nodes example_world)})
   \<and> 1 < length (nodes example_world)
   \<and> node_attribute (nodes example_world ! 1) = Some (Mesh \<lparr>deformers = []\<rparr>)
   \<and> (\<exists>w' pose.
         add_skin_and_bind_pose [(''Root'', 2), (''Child'', 3)] 1 example_clusters example_world = Inr w'
       \<and> poses w' = [pose]
       \<and> is_bind_pose pose
       \<and> map fst (pose_items pose) = [1, 3]
       \<and> (\<forall>(h, T) \<in> set (pose_items pose). EvaluateGlobalTransform (nodes example_world) h = Inr T))"
proof -
  have h1: "parents_first (nodes example_world)" by (simp add: parents_first_def example_world_def)
  have h2: "snd ` set [(''Root'', 2), (''Child'', 3)] \<subseteq> {..<length (nodes example_world)}"
    by (simp add: example_world_def)
  have h3: "1 < length (nodes example_world)" by (simp add: example_world_def)
  have h4: "node_attribute (nodes example_world ! 1) = Some (Mesh \<lparr>deformers = []\<rparr>)" by (simp add: example_world_def)
  have s: "poses example_world = []" by (simp add: example_world_def)
  from bind_pose_snapshots [OF h1 h2 h3 h4, of example_clusters] h1 h2 h3 h4
  show ?thesis
    by (simp add: s with_cluster_def example_clusters_def)
qed

text \<open>
  Claim C3 as stated fails for a joint without cluster entry: the \<open>continue\<close> that
  skips the cluster skips the joint's pose record too. Here the node map has the
  bone \<open>Root\<close> (node 2) and there is no cluster: the bind pose holds the mesh node
  alone.
\<close>

theorem joint_without_cluster_not_in_bind_pose:
  "add_skin_and_bind_pose [(''Root'', 2)] 1 []
     \<lparr>nodes =
        [\<lparr>fbx_name = ''RootNode'', node_parent = None, LclTranslation = Vec3 0 0 0,
          lcl_rotation_scaling = mat_id, node_attribute = None\<rparr>,
         \<lparr>fbx_name = ''BodyLabs_body'', node_parent = Some 0, LclTranslation = Vec3 0 0 0,
          lcl_rotation_scaling = mat_id, node_attribute = Some (Mesh \<lparr>deformers = []\<rparr>)\<rparr>,
         \<lparr>fbx_name = ''Root'', node_parent = Some 0, LclTranslation = Vec3 1 2 3,
          lcl_rotation_scaling = mat_id, node_attribute = Some (Skeleton eLimbNode)\<rparr>],
      poses = [], stdout = []\<rparr>
   = Inr
     \<lparr>nodes =
        [\<lparr>fbx_name = ''RootNode'', node_parent = None, LclTranslation = Vec3 0 0 0,
          lcl_rotation_scaling = mat_id, node_attribute = None\<rparr>,
         \<lparr>fbx_name = ''BodyLabs_body'', node_parent = Some 0, LclTranslation = Vec3 0 0 0,
          lcl_rotation_scaling = mat_id,
          node_attribute = Some (Mesh \<lparr>deformers = [\<lparr>skin_clusters = []\<rparr>]\<rparr>)\<rparr>,
         \<lparr>fbx_name = ''Root'', node_parent = Some 0, LclTranslation = Vec3 1 2 3,
          lcl_rotation_scaling = mat_id, node_attribute = Some (Skeleton eLimbNode)\<rparr>],
      poses = [\<lparr>is_bind_pose = True, pose_items = [(1, FbxAMatrix mat_id (Vec3 0 0 0))]\<rparr>],
      stdout = []\<rparr>"
  by (simp add: add_skin_and_bind_pose_def GetNodeAttribute_def EvaluateGlobalTransform.simps
        local_transform_def amul_def mat_mul_def mat_id_def FbxSkin_Create_def FbxPose_Create_def pose_Add_def)

section \<open>Skeleton builder: proofs\<close>

lemma EvaluateGlobalTransform_append:
  "h < length ns \<Longrightarrow> EvaluateGlobalTransform (ns @ xs) h = EvaluateGlobalTransform ns h"
proof (induction h rule: less_induct)
  case (less h)
  show ?case
  proof (cases "node_parent (ns ! h)")
    case None
    then show ?thesis using less.prems
      by (simp add: EvaluateGlobalTransform.simps [of _ h] nth_append cong: sum.case_cong)
  next
    case (Some p)
    show ?thesis
    proof (cases "p < h")
      case True
      with less have "EvaluateGlobalTransform (ns @ xs) p = EvaluateGlobalTransform ns p" by simp
      then show ?thesis using less.prems Some True
        by (simp add: EvaluateGlobalTransform.simps [of _ h] nth_append cong: sum.case_cong)
    next
      case False
      then show ?thesis using less.prems Some
        by (simp add: EvaluateGlobalTransform.simps [of _ h] nth_append cong: sum.case_cong)
    qed
  qed
qed

lemma EvaluateGlobalTransform_update:
  "p < h \<Longrightarrow> EvaluateGlobalTransform (ns[h := n]) p = EvaluateGlobalTransform ns p"
proof (induction p rule: less_induct)
  case (less p)
  show ?case
  proof (cases "node_parent (ns ! p)")
    case None
    then show ?thesis using less.prems
      by (simp add: EvaluateGlobalTransform.simps [of _ p] cong: sum.case_cong)
  next
    case (Some q)
    show ?thesis
    proof (cases "q < p")
      case True
      with less have "EvaluateGlobalTransform (ns[h := n]) q = EvaluateGlobalTransform ns q" by simp
      then show ?thesis using less.prems Some True
        by (simp add: EvaluateGlobalTransform.simps [of _ p] cong: sum.case_cong)
    next
      case False
      then show ?thesis using less.prems Some
        by (simp add: EvaluateGlobalTransform.simps [of _ p] cong: sum.case_cong)
    qed
  qed
qed

lemma parents_first_snoc:
  "parents_first (ns @ [n]) \<longleftrightarrow>
     parents_first ns \<and> (case node_parent n of None \<Rightarrow> True | Some p \<Rightarrow> p < length ns)"
  by (auto simp: parents_first_iff nth_append less_Suc_eq split: option.splits)

lemma length_unedited [simp]: "length (unedited ns h) = length ns"
  by (simp add: unedited_def)

lemma unedited_append:
  "h < length ns \<Longrightarrow> unedited (ns @ xs) h = unedited ns h @ xs"
  by (simp add: unedited_def list_update_append nth_append)

lemma translation_solved_append:
  assumes "h < length ns" "parents_first ns"
  shows "translation_solved (ns @ xs) h loc \<longleftrightarrow> translation_solved ns h loc"
proof (cases "node_parent (ns ! h)")
  case None
  then show ?thesis using assms by (simp add: translation_solved_def nth_append)
next
  case (Some p)
  with assms have "p < h" by (simp add: parents_first_iff)
  with assms have "EvaluateGlobalTransform (ns @ xs) p = EvaluateGlobalTransform ns p"
    by (simp add: EvaluateGlobalTransform_append)
  moreover have "EvaluateGlobalTransform (unedited ns h @ xs) h = EvaluateGlobalTransform (unedited ns h) h"
    using assms by (simp add: EvaluateGlobalTransform_append unedited_def)
  ultimately show ?thesis
    using assms Some by (simp add: translation_solved_def unedited_append nth_append cong: sum.case_cong)
qed

lemma bone_ok_append:
  assumes "h < length ns" "parents_first ns"
  shows "bone_ok target (ns @ xs) h \<longleftrightarrow> bone_ok target ns h"
  using assms by (simp add: bone_ok_def translation_solved_append nth_append cong: option.case_cong)

lemma built_trans:
  assumes "built target w ns1 w1" "built target w1 ns2 w2"
  shows "built target w (ns1 @ ns2) w2"
proof -
  from assms(1) obtain new1 where 1:
    "nodes w1 = nodes w @ new1" "map fbx_name new1 = ns1" "parents_first (nodes w1)"
    "poses w1 = poses w"
    "stdout w1 = stdout w @ map PositionInformationMissing (filter (\<lambda>n. map_of target n = None) ns1)"
    "\<forall>h. length (nodes w) \<le> h \<and> h < length (nodes w1) \<longrightarrow> bone_ok target (nodes w1) h"
    unfolding built_def by blast
  from assms(2) obtain new2 where 2:
    "nodes w2 = nodes w1 @ new2" "map fbx_name new2 = ns2" "parents_first (nodes w2)"
    "poses w2 = poses w1"
    "stdout w2 = stdout w1 @ map PositionInformationMissing (filter (\<lambda>n. map_of target n = None) ns2)"
    "\<forall>h. length (nodes w1) \<le> h \<and> h < length (nodes w2) \<longrightarrow> bone_ok target (nodes w2) h"
    unfolding built_def by blast
  have ok: "bone_ok target (nodes w2) h" if "length (nodes w) \<le> h" "h < length (nodes w2)" for h
  proof (cases "h < length (nodes w1)")
    case True
    with 1(6) that have "bone_ok target (nodes w1) h" by simp
    then show ?thesis using True 1(3) by (simp add: 2(1) bone_ok_append)
  next
    case False
    with 2(6) that show ?thesis by simp
  qed
  show ?thesis unfolding built_def
    apply (rule exI [of _ "new1 @ new2"])
    using 1 2 ok by simp
qed

lemma built_refl: "parents_first (nodes w) \<Longrightarrow> built target w [] w"
  by (auto simp: built_def)

lemma node_step:
  assumes pf: "parents_first (nodes w)" and par: "parent < length (nodes w)"
  shows "\<exists>w4. (case map_of target nm of
                 Some node_position \<Rightarrow>
                   set_node_translation node_position (length (nodes w))
                     (AddChild parent (length (nodes w))
                        (SetNodeAttribute (length (nodes w)) (Skeleton eLimbNode)
                           (snd (FbxNode_Create nm w))))
               | None \<Rightarrow>
                   Inr ((AddChild parent (length (nodes w))
                          (SetNodeAttribute (length (nodes w)) (Skeleton eLimbNode)
                             (snd (FbxNode_Create nm w))))
                        \<lparr>stdout := stdout (AddChild parent (length (nodes w))
                          (SetNodeAttribute (length (nodes w)) (Skeleton eLimbNode)
                             (snd (FbxNode_Create nm w)))) @ [PositionInformationMissing nm]\<rparr>))
              = Inr w4
            \<and> built target w [nm] w4"
proof -
  define node where "node = length (nodes w)"
  define n0 where "n0 = \<lparr>fbx_name = nm, node_parent = Some parent, LclTranslation = Vec3 0 0 0,
                          lcl_rotation_scaling = mat_id,
                          node_attribute = Some (Skeleton eLimbNode)\<rparr>"
  define w3 where "w3 = AddChild parent node (SetNodeAttribute node (Skeleton eLimbNode)
                           (snd (FbxNode_Create nm w)))"
  have w3: "w3 = w\<lparr>nodes := nodes w @ [n0]\<rparr>"
    by (simp add: w3_def node_def n0_def AddChild_def SetNodeAttribute_def FbxNode_Create_def)
  have pf3: "parents_first (nodes w @ [n0])"
    using pf par by (simp add: parents_first_snoc n0_def)
  show ?thesis
  proof (cases "map_of target nm")
    case None
    have "built target w [nm] (w3\<lparr>stdout := stdout w3 @ [PositionInformationMissing nm]\<rparr>)"
      unfolding built_def
      apply (rule exI [of _ "[n0]"])
      using pf3 None by (auto simp: w3 bone_ok_def n0_def less_Suc_eq_le)
    then show ?thesis
      using None unfolding w3_def node_def by simp
  next
    case (Some loc)
    from pf3 obtain G where G: "EvaluateGlobalTransform (nodes w @ [n0]) node = Inr G"
      using EvaluateGlobalTransform_total [of "nodes w @ [n0]" node] by (auto simp: node_def)
    from pf3 par obtain P where P: "EvaluateGlobalTransform (nodes w @ [n0]) parent = Inr P"
      using EvaluateGlobalTransform_total [of "nodes w @ [n0]" parent] by auto
    define t where "t = GetT (amul (amul (amul (amul (Inverse P) (SetT loc SetIdentity)) (Inverse G)) P)
                          (SetT (Vec3 0 0 0) SetIdentity))"
    define w4 where "w4 = w\<lparr>nodes := nodes w @ [n0\<lparr>LclTranslation := t\<rparr>]\<rparr>"
    have set: "set_node_translation loc node w3 = Inr w4"
      using G P by (simp add: set_node_translation_def w3 GetParent_def node_def n0_def w4_def t_def)
    have une: "unedited (nodes w @ [n0\<lparr>LclTranslation := t\<rparr>]) node = nodes w @ [n0]"
      by (simp add: unedited_def node_def n0_def)
    have P': "EvaluateGlobalTransform (nodes w @ [n0\<lparr>LclTranslation := t\<rparr>]) parent = Inr P"
      using P par by (simp add: EvaluateGlobalTransform_append)
    have solved: "translation_solved (nodes w @ [n0\<lparr>LclTranslation := t\<rparr>]) node loc"
      unfolding translation_solved_def une
      using G P' by (simp add: node_def n0_def t_def)
    have pf4: "parents_first (nodes w @ [n0\<lparr>LclTranslation := t\<rparr>])"
      using pf par by (simp add: parents_first_snoc n0_def)
    have "built target w [nm] w4"
      unfolding built_def
      apply (rule exI [of _ "[n0\<lparr>LclTranslation := t\<rparr>]"])
      using pf4 Some solved by (auto simp: w4_def bone_ok_def n0_def less_Suc_eq_le node_def)
    then show ?thesis
      using Some set unfolding w3_def node_def by simp
  qed
qed

lemma built_length:
  "built target w names w' \<Longrightarrow> length (nodes w') = length (nodes w) + length names"
  by (auto simp: built_def)

lemma built_parents_first: "built target w names w' \<Longrightarrow> parents_first (nodes w')"
  by (auto simp: built_def)

lemma extend_children_built:
  assumes IH: "\<And>c parent w. c \<in> set cs \<Longrightarrow> parents_first (nodes w) \<Longrightarrow> parent < length (nodes w)
                 \<Longrightarrow> \<exists>w' m. extend_skeleton parent c target w = Inr (w', m)
                            \<and> built target w (tree_names c) w'"
      and "parents_first (nodes w)" and "node < length (nodes w)"
  shows "\<exists>w' m'. extend_children node cs target w m = Inr (w', m')
               \<and> built target w (concat (map tree_names cs)) w'"
  using assms
proof (induction cs arbitrary: w m)
  case Nil
  then show ?case by (simp add: built_refl)
next
  case (Cons c cs)
  have "\<exists>w' m. extend_skeleton node c target w = Inr (w', m) \<and> built target w (tree_names c) w'"
    by (rule Cons.prems(1)) (simp_all add: Cons.prems(2,3))
  then obtain w1 m1 where 1: "extend_skeleton node c target w = Inr (w1, m1)"
    "built target w (tree_names c) w1"
    by auto
  have pf1: "parents_first (nodes w1)" using 1(2) by (rule built_parents_first)
  have n1: "node < length (nodes w1)" using built_length [OF 1(2)] Cons.prems(3) by simp
  have "\<exists>w' m'. extend_children node cs target w1 (dict_update m m1) = Inr (w', m')
               \<and> built target w1 (concat (map tree_names cs)) w'"
    by (rule Cons.IH [OF _ pf1 n1]) (rule Cons.prems(1), simp_all)
  then obtain w2 m2 where 2: "extend_children node cs target w1 (dict_update m m1) = Inr (w2, m2)"
    "built target w1 (concat (map tree_names cs)) w2"
    by auto
  from built_trans [OF 1(2) 2(2)] 1(1) 2(1) show ?case by simp
qed

lemma extend_skeleton_built:
  assumes "parents_first (nodes w)" and "parent < length (nodes w)"
  shows "\<exists>w' m. extend_skeleton parent t target w = Inr (w', m) \<and> built target w (tree_names t) w'"
  using assms
proof (induction t arbitrary: w parent)
  case (JointTree nm cs)
  from node_step [OF JointTree.prems, where target = target and nm = nm]
  obtain w4 where 4:
    "(case map_of target nm of
                 Some node_position \<Rightarrow>
                   set_node_translation node_position (length (nodes w))
                     (AddChild parent (length (nodes w))
                        (SetNodeAttribute (length (nodes w)) (Skeleton eLimbNode)
                           (snd (FbxNode_Create nm w))))
               | None \<Rightarrow>
                   Inr ((AddChild parent (length (nodes w))
                          (SetNodeAttribute (length (nodes w)) (Skeleton eLimbNode)
                             (snd (FbxNode_Create nm w))))
                        \<lparr>stdout := stdout (AddChild parent (length (nodes w))
                          (SetNodeAttribute (length (nodes w)) (Skeleton eLimbNode)
                             (snd (FbxNode_Create nm w)))) @ [PositionInformationMissing nm]\<rparr>))
              = Inr w4"
    "built target w [nm] w4"
    by blast
  have pf4: "parents_first (nodes w4)" using 4(2) by (rule built_parents_first)
  have n4: "length (nodes w) < length (nodes w4)" using built_length [OF 4(2)] by simp
  have "\<exists>w' m'. extend_children (length (nodes w)) cs target w4 (AList.update nm (length (nodes w)) [])
                  = Inr (w', m')
               \<and> built target w4 (concat (map tree_names cs)) w'"
    by (rule extend_children_built [OF _ pf4 n4]) (rule JointTree.IH, simp_all)
  then obtain w' m' where c:
    "extend_children (length (nodes w)) cs target w4 (AList.update nm (length (nodes w)) []) = Inr (w', m')"
    "built target w4 (concat (map tree_names cs)) w'"
    by blast
  have fst: "fst (FbxNode_Create nm w) = length (nodes w)" by (simp add: FbxNode_Create_def)
  have "extend_skeleton parent (JointTree nm cs) target w = Inr (w', m')"
    using 4(1) c(1) by (cases "map_of target nm") (simp_all add: FbxNode_Create_def Let_def)
  moreover have "built target w (tree_names (JointTree nm cs)) w'"
    using built_trans [OF 4(2) c(2)] by simp
  ultimately show ?case by blast
qed

subsection \<open>Solving for the local translation\<close>

lemma vadd_vneg [simp]: "vadd (vadd u (vneg v)) v = u" "vadd v (vadd (vneg v) u) = u"
  "vadd (vneg v) (vadd v u) = u"
  by (cases u; cases v; simp)+

lemma vadd_zero [simp]: "vadd u (Vec3 0 0 0) = u" "vadd (Vec3 0 0 0) u = u"
  by (cases u; simp)+

lemma mat_vec_vadd: "mat_vec A (vadd u v) = vadd (mat_vec A u) (mat_vec A v)"
  by (cases A; cases u; cases v; case_tac x1; case_tac x2; case_tac x3) (simp add: algebra_simps)

lemma mat_vec_vneg: "mat_vec A (vneg v) = vneg (mat_vec A v)"
  by (cases A; cases v; case_tac x1; case_tac x2; case_tac x3) (simp add: algebra_simps)

lemma mat_vec_mul: "mat_vec (mat_mul A B) v = mat_vec A (mat_vec B v)"
  by (cases A; cases B; cases v; case_tac x1; case_tac x2; case_tac x3;
      case_tac x1a; case_tac x2a; case_tac x3a) (simp add: mat_mul_def algebra_simps)

lemma mat_vec_id [simp]: "mat_vec mat_id v = v"
  by (cases v) (simp add: mat_id_def)

lemma mat_inv_right:
  assumes "det3 A \<noteq> 0"
  shows "mat_vec A (mat_vec (mat_inv A) v) = v"
proof -
  obtain a b c d e f g h i where A: "A = Mat3 (Vec3 a b c) (Vec3 d e f) (Vec3 g h i)"
    by (cases A; case_tac x1; case_tac x2; case_tac x3) simp
  obtain x y z where v: "v = Vec3 x y z" by (cases v)
  define D where "D = a * (e * i - f * h) + b * (f * g - d * i) + c * (d * h - e * g)"
  have D: "D \<noteq> 0" using assms by (simp add: A D_def)
  have inv: "mat_vec (mat_inv A) v =
               Vec3 (((e * i - f * h) * x + (c * h - b * i) * y + (b * f - c * e) * z) / D)
                    (((f * g - d * i) * x + (a * i - c * g) * y + (c * d - a * f) * z) / D)
                    (((d * h - e * g) * x + (b * g - a * h) * y + (a * e - b * d) * z) / D)"
    by (simp add: A v D_def Let_def add_divide_distrib)
  define N1 where "N1 = (e * i - f * h) * x + (c * h - b * i) * y + (b * f - c * e) * z"
  define N2 where "N2 = (f * g - d * i) * x + (a * i - c * g) * y + (c * d - a * f) * z"
  define N3 where "N3 = (d * h - e * g) * x + (b * g - a * h) * y + (a * e - b * d) * z"
  have 1: "a * N1 + b * N2 + c * N3 = D * x"
    unfolding D_def N1_def N2_def N3_def by (simp add: algebra_simps)
  have 2: "d * N1 + e * N2 + f * N3 = D * y"
    unfolding D_def N1_def N2_def N3_def by (simp add: algebra_simps)
  have 3: "g * N1 + h * N2 + i * N3 = D * z"
    unfolding D_def N1_def N2_def N3_def by (simp add: algebra_simps)
  have q: "p * N1 / D + q * N2 / D + r * N3 / D = (p * N1 + q * N2 + r * N3) / D" for p q r
    by (simp add: add_divide_distrib)
  have "mat_vec A (Vec3 (N1 / D) (N2 / D) (N3 / D)) = Vec3 x y z"
    using D by (simp add: A) (simp add: q 1 2 3)
  then show ?thesis
    using inv by (simp add: v N1_def N2_def N3_def)
qed

lemma vec_cancel: "vadd x (vadd y (vadd (vneg (vadd x y)) z)) = z"
  by (cases x; cases y; cases z) simp

lemma solve_translation:
  assumes "G = amul P (FbxAMatrix R t)"
  shows "GetT (amul (amul (amul (amul (Inverse P) (SetT d SetIdentity)) (Inverse G)) P)
                 (SetT t SetIdentity))
           = vadd (mat_vec (mat_inv (lin P)) d) (vneg (mat_vec (mat_inv (lin P)) (transl P)))"
  unfolding assms
  by (simp add: amul_def Inverse_def SetT_def SetIdentity_def GetT_def mat_vec_mul mat_vec_vadd mat_vec_vneg vec_cancel)

lemma EvaluateGlobalTransform_parent:
  assumes "EvaluateGlobalTransform ns h = Inr G" "node_parent (ns ! h) = Some p"
  shows "h < length ns \<and> p < h
       \<and> (\<exists>P. EvaluateGlobalTransform ns p = Inr P \<and> G = amul P (local_transform (ns ! h)))"
  using assms by (auto simp: EvaluateGlobalTransform.simps [of ns h] split: if_splits sum.splits)

lemma set_node_translation_global:
  assumes G: "EvaluateGlobalTransform (nodes w) fbx_node = Inr current_global"
      and par: "node_parent (nodes w ! fbx_node) = Some parent"
      and P: "EvaluateGlobalTransform (nodes w) parent = Inr parent_global"
      and detP: "det3 (lin parent_global) \<noteq> 0"
      and detG: "det3 (lin current_global) \<noteq> 0"
  shows "\<exists>w' new_global.
           set_node_translation location fbx_node w = Inr w'
         \<and> EvaluateGlobalTransform (nodes w') fbx_node = Inr new_global
         \<and> GetT new_global = location
         \<and> lin new_global = lin current_global"
proof -
  let ?n = "nodes w ! fbx_node"
  from EvaluateGlobalTransform_parent [OF G par] P
  have lt: "fbx_node < length (nodes w)" and pl: "parent < fbx_node"
    and Geq: "current_global = amul parent_global (FbxAMatrix (lcl_rotation_scaling ?n) (LclTranslation ?n))"
    by (auto simp: local_transform_def)
  define t where "t = vadd (mat_vec (mat_inv (lin parent_global)) location)
                        (vneg (mat_vec (mat_inv (lin parent_global)) (transl parent_global)))"
  define w' where "w' = w\<lparr>nodes := (nodes w)[fbx_node := ?n\<lparr>LclTranslation := t\<rparr>]\<rparr>"
  have set: "set_node_translation location fbx_node w = Inr w'"
    using G P par lt
    by (simp add: set_node_translation_def GetParent_def solve_translation [OF Geq] w'_def t_def)
  have P': "EvaluateGlobalTransform (nodes w') parent = Inr parent_global"
    using P pl by (simp add: w'_def EvaluateGlobalTransform_update)
  have ev: "EvaluateGlobalTransform (nodes w') fbx_node
              = Inr (amul parent_global (FbxAMatrix (lcl_rotation_scaling ?n) t))"
    using P' lt par pl unfolding w'_def
    by (simp add: EvaluateGlobalTransform.simps [of _ fbx_node] local_transform_def)
  have "GetT (amul parent_global (FbxAMatrix (lcl_rotation_scaling ?n) t)) = location"
    by (simp add: GetT_def amul_def t_def mat_vec_vadd mat_vec_vneg mat_inv_right [OF detP])
  moreover have "lin (amul parent_global (FbxAMatrix (lcl_rotation_scaling ?n) t)) = lin current_global"
    by (simp add: Geq amul_def)
  ultimately show ?thesis using set ev by blast
qed


lemma det3_mat_mul: "det3 (mat_mul A B) = det3 A * det3 B"
  by (cases A; cases B; case_tac x1; case_tac x2; case_tac x3;
      case_tac x1a; case_tac x2a; case_tac x3a) (simp add: mat_mul_def algebra_simps)

lemma det_global:
  assumes "invertible_locals ns"
  shows "EvaluateGlobalTransform ns h = Inr G \<Longrightarrow> det3 (lin G) \<noteq> 0"
proof (induction h arbitrary: G rule: less_induct)
  case (less h)
  from less.prems have h: "h < length ns"
    by (simp add: EvaluateGlobalTransform.simps [of ns h] split: if_splits)
  with assms have d: "det3 (lcl_rotation_scaling (ns ! h)) \<noteq> 0"
    by (simp add: invertible_locals_def list_all_length)
  show ?case
  proof (cases "node_parent (ns ! h)")
    case None
    with less.prems h d show ?thesis
      by (auto simp: EvaluateGlobalTransform.simps [of ns h] local_transform_def)
  next
    case (Some p)
    from EvaluateGlobalTransform_parent [OF less.prems Some]
    obtain P where P: "p < h" "EvaluateGlobalTransform ns p = Inr P"
      "G = amul P (local_transform (ns ! h))"
      by blast
    from less.IH [OF P(1,2)] d show ?thesis
      by (simp add: P(3) amul_def local_transform_def det3_mat_mul)
  qed
qed

text \<open>
  Claim C8. Take a scene whose parents come first and whose nodes all have an
  invertible rotation and scaling matrix, a node of it that has a parent, and any
  target position. \<open>_set_node_translation\<close> returns, and the node's global
  transform, evaluated afterwards the same way, has the target as its translation
  and the linear part (rotation and scaling) it had before. The arithmetic being
  exact here, the target is met exactly. Nothing is assumed of the rotations
  themselves or of the length of the chain of parents.
\<close>

theorem translation_reaches_target:
  assumes "parents_first (nodes w)" and "invertible_locals (nodes w)"
      and "fbx_node < length (nodes w)"
      and "node_parent (nodes w ! fbx_node) = Some parent"
  shows "\<exists>w' current_global new_global.
           EvaluateGlobalTransform (nodes w) fbx_node = Inr current_global
         \<and> set_node_translation location fbx_node w = Inr w'
         \<and> EvaluateGlobalTransform (nodes w') fbx_node = Inr new_global
         \<and> GetT new_global = location
         \<and> lin new_global = lin current_global"
proof -
  from EvaluateGlobalTransform_total [OF assms(1,3)]
  obtain G where G: "EvaluateGlobalTransform (nodes w) fbx_node = Inr G" by blast
  from EvaluateGlobalTransform_parent [OF G assms(4)]
  obtain P where P: "EvaluateGlobalTransform (nodes w) parent = Inr P" by blast
  from set_node_translation_global [OF G assms(4) P det_global [OF assms(2) P] det_global [OF assms(2) G]]
  show ?thesis using G by blast
qed

theorem translation_reaches_target_witness:
  "parents_first (nodes rotated_world) \<and> invertible_locals (nodes rotated_world)
   \<and> 3 < length (nodes rotated_world)
   \<and> node_parent (nodes rotated_world ! 3) = Some 2
   \<and> (\<exists>w' new_global.
         EvaluateGlobalTransform (nodes rotated_world) 3
           = Inr (FbxAMatrix (Mat3 (Vec3 0 0 2) (Vec3 2 0 0) (Vec3 0 2 0)) (Vec3 (-3) 2 2))
       \<and> set_node_translation (Vec3 5 (-3) 2) 3 rotated_world = Inr w'
       \<and> EvaluateGlobalTransform (nodes w') 3 = Inr new_global
       \<and> GetT new_global = Vec3 5 (-3) 2
       \<and> lin new_global = Mat3 (Vec3 0 0 2) (Vec3 2 0 0) (Vec3 0 2 0))"
proof -
  have h1: "parents_first (nodes rotated_world)"
    by (simp add: parents_first_def rotated_world_def)
  have h2: "invertible_locals (nodes rotated_world)"
    by (simp add: invertible_locals_def rotated_world_def mat_id_def)
  have h3: "3 < length (nodes rotated_world)" by (simp add: rotated_world_def)
  have h4: "node_parent (nodes rotated_world ! 3) = Some 2" by (simp add: rotated_world_def)
  have G: "EvaluateGlobalTransform (nodes rotated_world) 3
     = Inr (FbxAMatrix (Mat3 (Vec3 0 0 2) (Vec3 2 0 0) (Vec3 0 2 0)) (Vec3 (-3) 2 2))"
    by (simp add: rotated_world_def EvaluateGlobalTransform.simps local_transform_def amul_def
          mat_mul_def mat_id_def)
  from translation_reaches_target [OF h1 h2 h3 h4, of "Vec3 5 (-3) 2"] h1 h2 h3 h4
  show ?thesis by (simp add: G)
qed

subsection \<open>The bones of a tree\<close>

text \<open>
  Claim C9. From a scene whose parents come first and a parent node of that scene,
  the builder returns. It appends one node per joint of the tree, named after the
  joints in visiting order, so the subtree below a joint without position is built
  as well. A new node whose name has no target position is a limb node whose local
  transform is the identity, and the messages printed are one
  \<open>Position information missing\<close> per joint name without position, in visiting
  order.
\<close>

theorem bone_without_position:
  assumes "parents_first (nodes w)" and "parent < length (nodes w)"
  shows "\<exists>w' m new.
           extend_skeleton parent t target w = Inr (w', m)
         \<and> nodes w' = nodes w @ new
         \<and> map fbx_name new = tree_names t
         \<and> (\<forall>n \<in> set new. map_of target (fbx_name n) = None \<longrightarrow>
               node_attribute n = Some (Skeleton eLimbNode) \<and> local_transform n = SetIdentity)
         \<and> stdout w' = stdout w
              @ map PositionInformationMissing (filter (\<lambda>n. map_of target n = None) (tree_names t))"
proof -
  from extend_skeleton_built [OF assms, of t target]
  obtain w' m where r: "extend_skeleton parent t target w = Inr (w', m)"
    "built target w (tree_names t) w'"
    by blast
  from r(2) obtain new where new:
    "nodes w' = nodes w @ new" "map fbx_name new = tree_names t"
    "stdout w' = stdout w
       @ map PositionInformationMissing (filter (\<lambda>n. map_of target n = None) (tree_names t))"
    "\<forall>h. length (nodes w) \<le> h \<and> h < length (nodes w') \<longrightarrow> bone_ok target (nodes w') h"
    unfolding built_def by blast
  have "node_attribute n = Some (Skeleton eLimbNode) \<and> local_transform n = SetIdentity"
    if "n \<in> set new" "map_of target (fbx_name n) = None" for n
  proof -
    from that(1) obtain i where i: "i < length new" "new ! i = n"
      by (auto simp: in_set_conv_nth)
    then have "bone_ok target (nodes w') (length (nodes w) + i)"
      using new(1,4) by simp
    then show ?thesis
      using i that(2) by (simp add: bone_ok_def new(1) local_transform_def SetIdentity_def)
  qed
  with r(1) new(1,2,3) show ?thesis by blast
qed

theorem bone_without_position_witness:
  "parents_first (nodes example_world) \<and> 0 < length (nodes example_world)
   \<and> (\<exists>w' m n1 n2 n3 n4.
         extend_skeleton 0 example_tree example_positions example_world = Inr (w', m)
       \<and> nodes w' = nodes example_world @ [n1, n2, n3, n4]
       \<and> map fbx_name [n1, n2, n3, n4] = [''Root'', ''A'', ''B'', ''C'']
       \<and> map_of example_positions (fbx_name n2) = None
       \<and> node_attribute n2 = Some (Skeleton eLimbNode) \<and> local_transform n2 = SetIdentity
       \<and> stdout w' = [PositionInformationMissing ''A''])"
proof -
  have h1: "parents_first (nodes example_world)"
    by (simp add: parents_first_def example_world_def)
  have h2: "0 < length (nodes example_world)" by (simp add: example_world_def)
  have s: "stdout example_world = []" by (simp add: example_world_def)
  from bone_without_position [OF h1 h2, of example_tree example_positions]
  obtain w' m new where r:
    "extend_skeleton 0 example_tree example_positions example_world = Inr (w', m)"
    "nodes w' = nodes example_world @ new"
    "map fbx_name new = [''Root'', ''A'', ''B'', ''C'']"
    "\<forall>n \<in> set new. map_of example_positions (fbx_name n) = None \<longrightarrow>
        node_attribute n = Some (Skeleton eLimbNode) \<and> local_transform n = SetIdentity"
    "stdout w' = [PositionInformationMissing ''A'']"
    by (auto simp: example_tree_def example_positions_def s)
  from r(3) obtain n1 n2 n3 n4 where new: "new = [n1, n2, n3, n4]"
    by (auto simp: map_eq_Cons_conv)
  with r(3) have n2: "map_of example_positions (fbx_name n2) = None"
    by (simp add: example_positions_def)
  with r(4) new have id: "node_attribute n2 = Some (Skeleton eLimbNode)" "local_transform n2 = SetIdentity"
    by simp_all
  have none: "map_of example_positions ''A'' = None"
    by (simp add: example_positions_def)
  have "\<exists>w' m n1 n2 n3 n4.
         extend_skeleton 0 example_tree example_positions example_world = Inr (w', m)
       \<and> nodes w' = nodes example_world @ [n1, n2, n3, n4]
       \<and> map fbx_name [n1, n2, n3, n4] = [''Root'', ''A'', ''B'', ''C'']
       \<and> map_of example_positions (fbx_name n2) = None
       \<and> node_attribute n2 = Some (Skeleton eLimbNode) \<and> local_transform n2 = SetIdentity
       \<and> stdout w' = [PositionInformationMissing ''A'']"
    by (rule exI [of _ w'], rule exI [of _ m], rule exI [of _ n1], rule exI [of _ n2],
        rule exI [of _ n3], rule exI [of _ n4])
       (simp add: r(1,5) r(2) [unfolded new] r(3) [unfolded new, simplified] id none)
  with h1 h2 show ?thesis by simp
qed

text \<open>
  Claim C1. From a scene whose parents come first and a parent node of that scene,
  the builder returns, and the nodes it appended are named after the joints of the
  tree in visiting order. Each of them whose name has a target position has, in the
  final scene, the local translation
  \<open>GetT(inverse(parent_global) * desired_global * inverse(current_global) * parent_global * local_current)\<close>,
  with \<open>desired_global\<close> the identity translated to the target, \<open>parent_global\<close>
  the evaluated global transform of its parent, and \<open>current_global\<close> and
  \<open>local_current\<close> the node's global transform and local translation before the
  edit.
\<close>

theorem local_translation_solved:
  assumes "parents_first (nodes w)" and "parent < length (nodes w)"
  shows "\<exists>w' m.
           extend_skeleton parent t target w = Inr (w', m)
         \<and> map fbx_name (drop (length (nodes w)) (nodes w')) = tree_names t
         \<and> (\<forall>h location.
               length (nodes w) \<le> h \<and> h < length (nodes w')
               \<and> map_of target (fbx_name (nodes w' ! h)) = Some location \<longrightarrow>
               (\<exists>p parent_global current_global.
                   node_parent (nodes w' ! h) = Some p
                 \<and> EvaluateGlobalTransform (nodes w') p = Inr parent_global
                 \<and> EvaluateGlobalTransform (unedited (nodes w') h) h = Inr current_global
                 \<and> LclTranslation (nodes w' ! h) =
                     GetT (amul (amul (amul (amul (Inverse parent_global) (SetT location SetIdentity))
                                   (Inverse current_global))
                              parent_global)
                            (SetT (LclTranslation (unedited (nodes w') h ! h)) SetIdentity))))"
proof -
  from extend_skeleton_built [OF assms, of t target]
  obtain w' m where r: "extend_skeleton parent t target w = Inr (w', m)"
    "built target w (tree_names t) w'"
    by blast
  from r(2) obtain new where new:
    "nodes w' = nodes w @ new" "map fbx_name new = tree_names t"
    "\<forall>h. length (nodes w) \<le> h \<and> h < length (nodes w') \<longrightarrow> bone_ok target (nodes w') h"
    unfolding built_def by blast
  have "\<exists>p parent_global current_global.
                   node_parent (nodes w' ! h) = Some p
                 \<and> EvaluateGlobalTransform (nodes w') p = Inr parent_global
                 \<and> EvaluateGlobalTransform (unedited (nodes w') h) h = Inr current_global
                 \<and> LclTranslation (nodes w' ! h) =
                     GetT (amul (amul (amul (amul (Inverse parent_global) (SetT location SetIdentity))
                                   (Inverse current_global))
                              parent_global)
                            (SetT (LclTranslation (unedited (nodes w') h ! h)) SetIdentity))"
    if "length (nodes w) \<le> h" "h < length (nodes w')"
       "map_of target (fbx_name (nodes w' ! h)) = Some location" for h location
  proof -
    from new(3) that have "translation_solved (nodes w') h location"
      by (auto simp: bone_ok_def)
    then show ?thesis
      unfolding translation_solved_def
      by (auto split: option.splits sum.splits)
  qed
  moreover have "map fbx_name (drop (length (nodes w)) (nodes w')) = tree_names t"
    using new(1,2) by simp
  ultimately show ?thesis using r(1) by blast
qed

lemma nth_drop_name:
  assumes "map fbx_name (drop k ns) = names" "i < length names"
  shows "k + i < length ns \<and> fbx_name (ns ! (k + i)) = names ! i"
proof -
  from assms have l: "i < length (drop k ns)" by (metis length_map)
  then have "k + i < length ns" by simp
  moreover from l have "fbx_name (drop k ns ! i) = names ! i"
    using assms(1) by (metis nth_map)
  ultimately show ?thesis by (simp add: nth_drop) 
qed

theorem local_translation_solved_witness:
  "parents_first (nodes example_world) \<and> 0 < length (nodes example_world)
   \<and> (\<exists>w' m.
         extend_skeleton 0 example_tree example_positions example_world = Inr (w', m)
       \<and> length (nodes example_world) \<le> 6 \<and> 6 < length (nodes w')
       \<and> map_of example_positions (fbx_name (nodes w' ! 6)) = Some (Vec3 5 5 5)
       \<and> (\<exists>p parent_global current_global.
              node_parent (nodes w' ! 6) = Some p
            \<and> EvaluateGlobalTransform (nodes w') p = Inr parent_global
            \<and> EvaluateGlobalTransform (unedited (nodes w') 6) 6 = Inr current_global
            \<and> LclTranslation (nodes w' ! 6) =
                GetT (amul (amul (amul (amul (Inverse parent_global) (SetT (Vec3 5 5 5) SetIdentity))
                              (Inverse current_global))
                         parent_global)
                       (SetT (LclTranslation (unedited (nodes w') 6 ! 6)) SetIdentity))))"
proof -
  have h1: "parents_first (nodes example_world)"
    by (simp add: parents_first_def example_world_def)
  have h2: "0 < length (nodes example_world)" by (simp add: example_world_def)
  have len: "length (nodes example_world) = 4" by (simp add: example_world_def)
  from local_translation_solved [OF h1 h2, of example_tree example_positions]
  obtain w' m where r:
    "extend_skeleton 0 example_tree example_positions example_world = Inr (w', m)"
    "map fbx_name (drop 4 (nodes w')) = [''Root'', ''A'', ''B'', ''C'']"
    "\<forall>h location.
        4 \<le> h \<and> h < length (nodes w')
        \<and> map_of example_positions (fbx_name (nodes w' ! h)) = Some location \<longrightarrow>
        (\<exists>p parent_global current_global.
            node_parent (nodes w' ! h) = Some p
          \<and> EvaluateGlobalTransform (nodes w') p = Inr parent_global
          \<and> EvaluateGlobalTransform (unedited (nodes w') h) h = Inr current_global
          \<and> LclTranslation (nodes w' ! h) =
              GetT (amul (amul (amul (amul (Inverse parent_global) (SetT location SetIdentity))
                            (Inverse current_global))
                       parent_global)
                     (SetT (LclTranslation (unedited (nodes w') h ! h)) SetIdentity)))"
    unfolding len by (auto simp: example_tree_def)
  from nth_drop_name [OF r(2), of 2]
  have b: "6 < length (nodes w')" "fbx_name (nodes w' ! 6) = ''B''" by simp_all
  then have p: "map_of example_positions (fbx_name (nodes w' ! 6)) = Some (Vec3 5 5 5)"
    by (simp add: example_positions_def)
  from r(3) b(1) p have
    "\<exists>p parent_global current_global.
            node_parent (nodes w' ! 6) = Some p
          \<and> EvaluateGlobalTransform (nodes w') p = Inr parent_global
          \<and> EvaluateGlobalTransform (unedited (nodes w') 6) 6 = Inr current_global
          \<and> LclTranslation (nodes w' ! 6) =
              GetT (amul (amul (amul (amul (Inverse parent_global) (SetT (Vec3 5 5 5) SetIdentity))
                            (Inverse current_global))
                       parent_global)
                     (SetT (LclTranslation (unedited (nodes w') 6 ! 6)) SetIdentity))"
    by simp
  with r(1) b(1) p h1 h2 len show ?thesis by auto
qed


subsection \<open>The node map, and binding what was built\<close>

text \<open>
  The node map the builder returns is a dict from the joint names of the tree to
  nodes it created, so the binder, called on the scene and the map the builder left,
  returns as well: the conditions of the binder's theorems are those the builder
  establishes.
\<close>

lemma set_update_subset: "set (AList.update k v al) \<subseteq> insert (k, v) (set al)"
  by (induction al) auto

lemma dict_update_keys:
  "fst ` set (dict_update d e) = fst ` set d \<union> fst ` set e"
  unfolding dict_update_def
proof (induction e arbitrary: d)
  case Nil
  show ?case by simp
next
  case (Cons x e)
  obtain k v where x: "x = (k, v)" by (cases x)
  have "fst ` set (fold (\<lambda>(k, v). AList.update k v) e (AList.update k v d))
          = fst ` set (AList.update k v d) \<union> fst ` set e"
    by (rule Cons.IH)
  then show ?case by (simp add: x dom_update)
qed

lemma dict_update_distinct:
  "distinct (map fst d) \<Longrightarrow> distinct (map fst (dict_update d e))"
  unfolding dict_update_def
proof (induction e arbitrary: d)
  case Nil
  then show ?case by simp
next
  case (Cons x e)
  obtain k v where x: "x = (k, v)" by (cases x)
  from Cons.prems have "distinct (map fst (AList.update k v d))" by (rule distinct_update)
  then have "distinct (map fst (fold (\<lambda>(k, v). AList.update k v) e (AList.update k v d)))"
    by (rule Cons.IH)
  then show ?case by (simp add: x)
qed

lemma dict_update_values:
  "snd ` set (dict_update d e) \<subseteq> snd ` set d \<union> snd ` set e"
  unfolding dict_update_def
proof (induction e arbitrary: d)
  case Nil
  show ?case by simp
next
  case (Cons x e)
  obtain k v where x: "x = (k, v)" by (cases x)
  have "snd ` set (fold (\<lambda>(k, v). AList.update k v) e (AList.update k v d))
          \<subseteq> snd ` set (AList.update k v d) \<union> snd ` set e"
    by (rule Cons.IH)
  also have "snd ` set (AList.update k v d) \<subseteq> insert v (snd ` set d)"
    using set_update_subset [of k v d] by force
  finally show ?case by (auto simp: x)
qed

lemma extend_children_map:
  assumes IH: "\<And>c parent w w' m. c \<in> set cs \<Longrightarrow> parents_first (nodes w) \<Longrightarrow> parent < length (nodes w)
                 \<Longrightarrow> extend_skeleton parent c target w = Inr (w', m)
                 \<Longrightarrow> distinct (map fst m) \<and> fst ` set m = set (tree_names c)
                     \<and> snd ` set m \<subseteq> {length (nodes w)..<length (nodes w')}"
      and "parents_first (nodes w)" and "node < length (nodes w)"
      and "extend_children node cs target w m = Inr (w', m')"
      and "distinct (map fst m)"
  shows "distinct (map fst m')
       \<and> fst ` set m' = fst ` set m \<union> set (concat (map tree_names cs))
       \<and> snd ` set m' \<subseteq> snd ` set m \<union> {length (nodes w)..<length (nodes w')}"
  using assms
proof (induction cs arbitrary: w m)
  case Nil
  then show ?case by auto
next
  case (Cons c cs)
  from extend_skeleton_built [OF Cons.prems(2,3), of c target]
  obtain w1 m1 where 1: "extend_skeleton node c target w = Inr (w1, m1)"
    "built target w (tree_names c) w1"
    by blast
  have pf1: "parents_first (nodes w1)" using 1(2) by (rule built_parents_first)
  have l1: "length (nodes w1) = length (nodes w) + length (tree_names c)"
    using 1(2) by (rule built_length)
  have n1: "node < length (nodes w1)" using l1 Cons.prems(3) by simp
  have c1: "distinct (map fst m1) \<and> fst ` set m1 = set (tree_names c)
              \<and> snd ` set m1 \<subseteq> {length (nodes w)..<length (nodes w1)}"
    by (rule Cons.prems(1) [OF _ Cons.prems(2,3) 1(1)]) simp
  from Cons.prems(4) 1(1)
  have rest: "extend_children node cs target w1 (dict_update m m1) = Inr (w', m')" by simp
  have d: "distinct (map fst (dict_update m m1))"
    using Cons.prems(5) by (rule dict_update_distinct)
  have r: "distinct (map fst m')
       \<and> fst ` set m' = fst ` set (dict_update m m1) \<union> set (concat (map tree_names cs))
       \<and> snd ` set m' \<subseteq> snd ` set (dict_update m m1) \<union> {length (nodes w1)..<length (nodes w')}"
  proof (rule Cons.IH [OF _ pf1 n1 rest d])
    fix c' p v v' mm
    assume "c' \<in> set cs" and a: "parents_first (nodes v)" "p < length (nodes v)"
      "extend_skeleton p c' target v = Inr (v', mm)"
    then have "c' \<in> set (c # cs)" by simp
    then show "distinct (map fst mm) \<and> fst ` set mm = set (tree_names c')
             \<and> snd ` set mm \<subseteq> {length (nodes v)..<length (nodes v')}"
      using a by (rule Cons.prems(1))
  qed
  from c1 have c1k: "fst ` set m1 = set (tree_names c)"
    and c1v: "snd ` set m1 \<subseteq> {length (nodes w)..<length (nodes w1)}"
    by simp_all
  from r have rd: "distinct (map fst m')"
    and rk: "fst ` set m' = fst ` set (dict_update m m1) \<union> set (concat (map tree_names cs))"
    and rv: "snd ` set m' \<subseteq> snd ` set (dict_update m m1) \<union> {length (nodes w1)..<length (nodes w')}"
    by simp_all
  have "\<exists>w'' m''. extend_children node cs target w1 (dict_update m m1) = Inr (w'', m'')
               \<and> built target w1 (concat (map tree_names cs)) w''"
    by (rule extend_children_built [OF _ pf1 n1]) (rule extend_skeleton_built, assumption+)
  with rest have "built target w1 (concat (map tree_names cs)) w'" by auto
  from built_length [OF this] have l2: "length (nodes w1) \<le> length (nodes w')" by simp
  have k: "fst ` set m' = fst ` set m \<union> set (concat (map tree_names (c # cs)))"
    by (simp add: rk c1k dict_update_keys Un_assoc)
  have "snd ` set (dict_update m m1) \<subseteq> snd ` set m \<union> snd ` set m1"
    by (rule dict_update_values)
  with c1v have v: "snd ` set (dict_update m m1) \<subseteq> snd ` set m \<union> {length (nodes w)..<length (nodes w1)}"
    by blast
  have i1: "{length (nodes w)..<length (nodes w1)} \<subseteq> {length (nodes w)..<length (nodes w')}"
    using l2 by auto
  have i2: "{length (nodes w1)..<length (nodes w')} \<subseteq> {length (nodes w)..<length (nodes w')}"
    using l1 by auto
  from rv v i1 i2 have sv: "snd ` set m' \<subseteq> snd ` set m \<union> {length (nodes w)..<length (nodes w')}"
    by blast
  show ?case
  proof (intro conjI)
    show "distinct (map fst m')" by (rule rd)
    show "fst ` set m' = fst ` set m \<union> set (concat (map tree_names (c # cs)))" by (rule k)
    show "snd ` set m' \<subseteq> snd ` set m \<union> {length (nodes w)..<length (nodes w')}" by (rule sv)
  qed
qed

lemma extend_skeleton_map:
  assumes "parents_first (nodes w)" and "parent < length (nodes w)"
      and "extend_skeleton parent t target w = Inr (w', m)"
  shows "distinct (map fst m) \<and> fst ` set m = set (tree_names t)
       \<and> snd ` set m \<subseteq> {length (nodes w)..<length (nodes w')}"
  using assms
proof (induction t arbitrary: w parent w' m)
  case (JointTree nm cs)
  from node_step [OF JointTree.prems(1,2), where target = target and nm = nm]
  obtain w4 where 4:
    "(case map_of target nm of
                 Some node_position \<Rightarrow>
                   set_node_translation node_position (length (nodes w))
                     (AddChild parent (length (nodes w))
                        (SetNodeAttribute (length (nodes w)) (Skeleton eLimbNode)
                           (snd (FbxNode_Create nm w))))
               | None \<Rightarrow>
                   Inr ((AddChild parent (length (nodes w))
                          (SetNodeAttribute (length (nodes w)) (Skeleton eLimbNode)
                             (snd (FbxNode_Create nm w))))
                        \<lparr>stdout := stdout (AddChild parent (length (nodes w))
                          (SetNodeAttribute (length (nodes w)) (Skeleton eLimbNode)
                             (snd (FbxNode_Create nm w)))) @ [PositionInformationMissing nm]\<rparr>))
              = Inr w4"
    "built target w [nm] w4"
    by blast
  have pf4: "parents_first (nodes w4)" using 4(2) by (rule built_parents_first)
  have l4: "length (nodes w4) = Suc (length (nodes w))" using built_length [OF 4(2)] by simp
  have c: "extend_children (length (nodes w)) cs target w4 (AList.update nm (length (nodes w)) []) = Inr (w', m)"
    using JointTree.prems(3) 4(1)
    by (cases "map_of target nm") (simp_all add: FbxNode_Create_def Let_def)
  have "distinct (map fst m)
       \<and> fst ` set m = fst ` set (AList.update nm (length (nodes w)) []) \<union> set (concat (map tree_names cs))
       \<and> snd ` set m \<subseteq> snd ` set (AList.update nm (length (nodes w)) [])
                           \<union> {length (nodes w4)..<length (nodes w')}"
  proof (rule extend_children_map [OF _ pf4 _ c])
    fix c' p v v' mm
    assume "c' \<in> set cs" "parents_first (nodes v)" "p < length (nodes v)"
      "extend_skeleton p c' target v = Inr (v', mm)"
    then show "distinct (map fst mm) \<and> fst ` set mm = set (tree_names c')
             \<and> snd ` set mm \<subseteq> {length (nodes v)..<length (nodes v')}"
      by (rule JointTree.IH)
  next
    show "length (nodes w) < length (nodes w4)" by (simp add: l4)
  next
    show "distinct (map fst (AList.update nm (length (nodes w)) []))" by simp
  qed
  then have md: "distinct (map fst m)"
    and mk: "fst ` set m = insert nm (set (concat (map tree_names cs)))"
    and mv: "snd ` set m \<subseteq> insert (length (nodes w)) {length (nodes w4)..<length (nodes w')}"
    by simp_all
  have "\<exists>w'' m''. extend_children (length (nodes w)) cs target w4
                     (AList.update nm (length (nodes w)) []) = Inr (w'', m'')
               \<and> built target w4 (concat (map tree_names cs)) w''"
    by (rule extend_children_built [OF _ pf4]) (rule extend_skeleton_built, simp_all add: l4)
  with c have "built target w4 (concat (map tree_names cs)) w'" by auto
  from built_length [OF this] have l5: "length (nodes w4) \<le> length (nodes w')" by simp
  have "insert (length (nodes w)) {length (nodes w4)..<length (nodes w')}
          \<subseteq> {length (nodes w)..<length (nodes w')}"
    using l4 l5 by auto
  with mv have sv: "snd ` set m \<subseteq> {length (nodes w)..<length (nodes w')}" by blast
  show ?case
  proof (intro conjI)
    show "distinct (map fst m)" by (rule md)
    show "fst ` set m = set (tree_names (JointTree nm cs))" by (simp add: mk)
    show "snd ` set m \<subseteq> {length (nodes w)..<length (nodes w')}" by (rule sv)
  qed
qed

lemma build_then_bind:
  assumes pf: "parents_first (nodes w)" and par: "parent < length (nodes w)"
      and mesh: "fbx_mesh_node < length (nodes w)"
                "node_attribute (nodes w ! fbx_mesh_node) = Some (Mesh m)"
  shows "\<exists>w' fbx_node_map w''.
           extend_skeleton parent t target w = Inr (w', fbx_node_map)
         \<and> distinct (map fst fbx_node_map)
         \<and> fst ` set fbx_node_map = set (tree_names t)
         \<and> add_skin_and_bind_pose fbx_node_map fbx_mesh_node clusters w' = Inr w''"
proof -
  from extend_skeleton_built [OF pf par, of t target]
  obtain w' fbx_node_map where r: "extend_skeleton parent t target w = Inr (w', fbx_node_map)"
    "built target w (tree_names t) w'"
    by blast
  from extend_skeleton_map [OF pf par r(1)]
  have d: "distinct (map fst fbx_node_map)" and k: "fst ` set fbx_node_map = set (tree_names t)"
    and v: "snd ` set fbx_node_map \<subseteq> {length (nodes w)..<length (nodes w')}"
    by simp_all
  from r(2) obtain new where new: "nodes w' = nodes w @ new" "parents_first (nodes w')"
    unfolding built_def by blast
  have v': "snd ` set fbx_node_map \<subseteq> {..<length (nodes w')}" using v by auto
  have m1: "fbx_mesh_node < length (nodes w')" using mesh(1) new(1) by simp
  have m2: "node_attribute (nodes w' ! fbx_mesh_node) = Some (Mesh m)"
    using mesh new(1) by (simp add: nth_append)
  from add_skin_and_bind_pose_result [OF new(2) v' m1 m2, of clusters]
  obtain w'' where "add_skin_and_bind_pose fbx_node_map fbx_mesh_node clusters w' = Inr w''"
    by blast
  with r(1) d k show ?thesis by blast
qed


end
